theory Spec2Isabelle
  imports Complex_Main
begin

section \<open>The multimodal web surfer agent\<close>

text \<open>
  A shallow embedding of \<^verbatim>\<open>multimodal_web_surfer.py\<close>: the agent's turn
  (\<^verbatim>\<open>generate_surfer_reply\<close>) and the helpers it calls. The browser, the
  model client and the helper libraries are outside the module; every call into them is
  recorded in a trace, and what it returns or raises is given by an environment.
  Strings are byte strings (UTF-8), integers are Python's unbounded integers.
\<close>

subsection \<open>Exceptions\<close>

text \<open>
  The exceptions the module raises, catches or lets through.
  \<^verbatim>\<open>json.JSONDecodeError\<close> is a subclass of \<^verbatim>\<open>ValueError\<close>;
  \<open>OtherError\<close> stands for any exception class the module never names.
\<close>

datatype exn =
    ValueError string
  | JSONDecodeError string
  | TimeoutError
  | AttributeError
  | TypeError
  | IndexError
  | ZeroDivisionError
  | OtherError string

text \<open>\<^verbatim>\<open>except ValueError as e: ... str(e)\<close>: the instances of ValueError, with their text.\<close>

fun as_ValueError :: "exn \<Rightarrow> string option" where
  "as_ValueError (ValueError m) = Some m"
| "as_ValueError (JSONDecodeError m) = Some m"
| "as_ValueError _ = None"

fun is_TimeoutError :: "exn \<Rightarrow> bool" where
  "is_TimeoutError TimeoutError = True"
| "is_TimeoutError _ = False"

subsection \<open>Strings\<close>

definition startswith :: "string \<Rightarrow> string \<Rightarrow> bool" where
  "startswith s p = (take (length p) s = p)"

text \<open>\<^verbatim>\<open>sep.join(xs)\<close>\<close>

fun join :: "string \<Rightarrow> string list \<Rightarrow> string" where
  "join sep [] = []"
| "join sep [x] = x"
| "join sep (x # y # ys) = x @ sep @ join sep (y # ys)"

text \<open>The ASCII characters for which \<^verbatim>\<open>str.isspace\<close> holds, which \<^verbatim>\<open>\s\<close> matches.\<close>

definition isspace :: "char \<Rightarrow> bool" where
  "isspace c = (c \<in> set [CHR 0x09, CHR 0x0A, CHR 0x0B, CHR 0x0C, CHR 0x0D,
                           CHR 0x1C, CHR 0x1D, CHR 0x1E, CHR 0x1F, CHR 0x20])"

definition strip :: "string \<Rightarrow> string" where
  "strip s = rev (dropWhile isspace (rev (dropWhile isspace s)))"

text \<open>
  \<^verbatim>\<open>re.sub(r"\s+", " ", s, count)\<close>: the first \<open>count\<close> maximal runs of
  whitespace become one space each, the rest of the string is left as it is.
\<close>

function re_sub_space :: "nat \<Rightarrow> string \<Rightarrow> string" where
  "re_sub_space n [] = []"
| "re_sub_space n (c # cs) =
     (if isspace c then
        (case n of
           0 \<Rightarrow> c # cs
         | Suc k \<Rightarrow> CHR 0x20 # re_sub_space k (dropWhile isspace cs))
      else c # re_sub_space n cs)"
  by pat_completeness auto
termination
  by (relation "measure (\<lambda>(n, s). length s)")
     (auto simp: length_dropWhile_le less_Suc_eq_le)

text \<open>\<^verbatim>\<open>re.DOTALL\<close> is the integer 16.\<close>

definition re_DOTALL :: nat where
  "re_DOTALL = 16"

text \<open>
  \<^verbatim>\<open>re.split(r"([\r\n]+)", s)\<close>: the text between runs of line breaks, and the
  runs themselves (the pattern is a group), alternating; the pieces concatenate to \<open>s\<close>.
\<close>

definition is_newline :: "char \<Rightarrow> bool" where
  "is_newline c = (c = CHR 0x0D \<or> c = CHR 0x0A)"

lemma dropWhile_newline_shorter:
  assumes "dropWhile (\<lambda>c. \<not> is_newline c) s \<noteq> []"
  shows "length (dropWhile is_newline (dropWhile (\<lambda>c. \<not> is_newline c) s)) < length s"
proof -
  let ?r = "dropWhile (\<lambda>c. \<not> is_newline c) s"
  from assms obtain c cs where r: "?r = c # cs"
    by (cases ?r) auto
  have "is_newline c"
    using hd_dropWhile [of "\<lambda>c. \<not> is_newline c" s] assms r by simp
  then have "length (dropWhile is_newline ?r) \<le> length cs"
    by (simp add: r length_dropWhile_le)
  moreover have "length ?r \<le> length s"
    by (rule length_dropWhile_le)
  ultimately show ?thesis
    by (simp add: r)
qed

function re_split_newlines :: "string \<Rightarrow> string list" where
  "re_split_newlines s =
     (if dropWhile (\<lambda>c. \<not> is_newline c) s = []
      then [takeWhile (\<lambda>c. \<not> is_newline c) s]
      else takeWhile (\<lambda>c. \<not> is_newline c) s
           # takeWhile is_newline (dropWhile (\<lambda>c. \<not> is_newline c) s)
           # re_split_newlines
               (dropWhile is_newline (dropWhile (\<lambda>c. \<not> is_newline c) s)))"
  by pat_completeness auto
termination
  by (relation "measure length") (auto simp: dropWhile_newline_shorter)

declare re_split_newlines.simps [simp del]

text \<open>\<^verbatim>\<open>str(n)\<close> of an integer.\<close>

function str_nat :: "nat \<Rightarrow> string" where
  "str_nat n =
     (if n < 10 then [''0123456789'' ! n]
      else str_nat (n div 10) @ [''0123456789'' ! (n mod 10)])"
  by pat_completeness auto
termination
  by (relation "measure id") auto

declare str_nat.simps [simp del]

definition str_int :: "int \<Rightarrow> string" where
  "str_int i = (if i < 0 then CHR ''-'' # str_nat (nat (- i)) else str_nat (nat i))"

text \<open>
  \<^verbatim>\<open>urllib.parse.quote_plus\<close> with its default arguments, on the UTF-8 bytes
  of the string: letters, digits and \<^verbatim>\<open>_.-~\<close> stay, a space becomes
  \<^verbatim>\<open>+\<close>, every other byte becomes \<^verbatim>\<open>%XX\<close>.
\<close>

definition always_safe :: "char \<Rightarrow> bool" where
  "always_safe c =
     (c \<in> set ''ABCDEFGHIJKLMNOPQRSTUVWXYZabcdefghijklmnopqrstuvwxyz0123456789_.-~'')"

definition quote_byte :: "char \<Rightarrow> string" where
  "quote_byte c =
     (if always_safe c then [c]
      else if c = CHR 0x20 then ''+''
      else [CHR ''%'', ''0123456789ABCDEF'' ! (of_char c div 16),
                       ''0123456789ABCDEF'' ! (of_char c mod 16)])"

definition quote_plus :: "string \<Rightarrow> string" where
  "quote_plus s = concat (map quote_byte s)"

text \<open>
  \<^verbatim>\<open>int(a * 100 / b)\<close> for integers: the quotient truncated towards zero
  (the division is exact enough for every page size a browser reports), and
  ZeroDivisionError when \<open>b\<close> is zero.
\<close>

definition percent :: "int \<Rightarrow> int \<Rightarrow> exn + int" where
  "percent a b =
     (if b = 0 then Inl ZeroDivisionError
      else Inr (sgn (a * 100) * sgn b * (\<bar>a * 100\<bar> div \<bar>b\<bar>)))"

text \<open>\<^verbatim>\<open>f"'{s}'"\<close>: a string between single quotes.\<close>

definition quoted :: "string \<Rightarrow> string" where
  "quoted s = CHR 0x27 # s @ [CHR 0x27]"

subsection \<open>Data\<close>

text \<open>An image: the bytes of a screenshot, or a PIL image made from them.\<close>

type_synonym image = string

text \<open>
  One entry of the dictionary \<^verbatim>\<open>MultimodalWebSurfer.getInteractiveRects()\<close>
  returns, with the keys the agent reads, and the three keys it reads of
  \<^verbatim>\<open>MultimodalWebSurfer.getVisualViewport()\<close>.
\<close>

record rect =
  role :: string
  tag_name :: string
  aria_name :: string
  v_scrollable :: bool

type_synonym rects = "string \<rightharpoonup> rect"

record viewport =
  pageTop :: int
  height :: int
  scrollHeight :: int

record box =
  box_x :: rat
  box_y :: rat
  box_width :: rat
  box_height :: rat

definition VIEWPORT_HEIGHT :: int where
  "VIEWPORT_HEIGHT = 900"

definition VIEWPORT_WIDTH :: int where
  "VIEWPORT_WIDTH = 1440"

text \<open>The tool definitions the module imports from \<^verbatim>\<open>tool_definitions\<close>.\<close>

datatype tool =
    TOOL_VISIT_URL
  | TOOL_WEB_SEARCH
  | TOOL_HISTORY_BACK
  | TOOL_PAGE_UP
  | TOOL_PAGE_DOWN
  | TOOL_CLICK
  | TOOL_TYPE
  | TOOL_SCROLL_ELEMENT_DOWN
  | TOOL_SCROLL_ELEMENT_UP
  | TOOL_SUMMARIZE_PAGE
  | TOOL_READ_PAGE_AND_ANSWER

text \<open>
  Chat messages. The content of a message is a string or a list of parts; the image
  part stands for its \<^verbatim>\<open>data:image/png;base64,\<close> URL
  (\<^verbatim>\<open>_image_to_data_uri\<close>).
\<close>

datatype part = TextPart string | ImagePart image

datatype content = Str string | Parts "part list"

record message =
  msg_role :: string
  msg_content :: content

record tool_call =
  function_name :: string
  function_arguments :: string

text \<open>
  The message of a completion: \<open>content\<close> may be \<^verbatim>\<open>None\<close>, and
  \<open>tool_calls\<close> is the empty list when there is none.
\<close>

record llm_message =
  content :: "string option"
  tool_calls :: "tool_call list"

record response =
  choices :: "llm_message list"

text \<open>
  The keyword arguments of \<^verbatim>\<open>client.create\<close>: the messages, and the tools
  (with \<^verbatim>\<open>tool_choice="auto"\<close>) when the call offers some.
\<close>

record request =
  req_messages :: "message list"
  req_tools :: "tool list option"

text \<open>
  What \<^verbatim>\<open>json.loads\<close> returns for the arguments of a tool call, as far as the
  agent tells values apart: a value is a string, \<^verbatim>\<open>None\<close>, or anything else
  (given by its \<^verbatim>\<open>str()\<close>); the arguments are a dictionary,
  \<^verbatim>\<open>None\<close>, an empty list or string, or anything else.
\<close>

datatype jval = JStr string | JNone | JOther string

datatype args = ArgsDict "(string \<times> jval) list" | ArgsNone | ArgsEmpty | ArgsOther

fun py_str :: "jval \<Rightarrow> string" where
  "py_str (JStr s) = s"
| "py_str JNone = ''None''"
| "py_str (JOther s) = s"

text \<open>The calls the module makes into the browser, the model client and its surroundings.\<close>

datatype call =
    EvalPageScript
  | Evaluate string
  | Screenshot
  | Title
  | Cookies
  | Goto string
  | GoBack
  | WaitForLoadState
  | WaitFor string int
  | BoundingBox string
  | Focus string
  | Fill string string
  | KeyboardPress string
  | MouseClick rat rat
  | ExpectPopup int
  | Route
  | SetViewportSize int int
  | AddInitScript
  | ClientCreate request
  | ConvertStream string string
  | Sleep rat
  | Print string
  | LogEvent string
  | SaveImage string image

text \<open>
  The state of a turn: the page the agent holds (\<^verbatim>\<open>self._page\<close>) and the calls
  made so far, each with the exception it raised, if any.
\<close>

record state =
  page :: nat
  trace :: "(call \<times> exn option) list"

text \<open>
  \<^verbatim>\<open>navigation_allow_list\<close> is a function on URLs, or a list of URL prefixes that
  the constructor turns into one.
\<close>

datatype allow_list = AllowFn "string \<Rightarrow> bool" | AllowList "string list"

fun allowed :: "allow_list \<Rightarrow> string \<Rightarrow> bool" where
  "allowed (AllowFn f) url = f url"
| "allowed (AllowList entries) url = list_ex (\<lambda>entry. startswith url entry) entries"

text \<open>
  The agent's configuration and its surroundings. What a call into the browser or the
  model client returns or raises may depend on the state, that is on every call made
  before. \<open>fails\<close> says whether a call whose result the agent does not read raises.
  The helpers \<^verbatim>\<open>content_str\<close>, \<^verbatim>\<open>add_set_of_mark\<close>,
  \<^verbatim>\<open>count_token\<close>, \<^verbatim>\<open>json.loads\<close>, PIL's \<^verbatim>\<open>resize\<close>, the
  client's \<^verbatim>\<open>extract_text_or_completion_object\<close> and the names of the tool
  definitions are parameters.
\<close>

record env =
  debug_dir :: string
  navigation_allow_list :: allow_list
  logging_enabled :: bool
  oai_messages :: "message list"
  tool_name :: "tool \<Rightarrow> string"
  content_str :: "content \<Rightarrow> string"
  add_set_of_mark :: "image \<Rightarrow> rects \<Rightarrow> image \<times> string list"
  resize :: "image \<Rightarrow> image"
  count_token :: "string \<Rightarrow> int"
  json_loads :: "string \<Rightarrow> exn + args"
  extract_text_or_completion_object :: "response \<Rightarrow> string list"
  fails :: "state \<Rightarrow> call \<Rightarrow> exn option"
  interactive_rects :: "state \<Rightarrow> exn + rects"
  visual_viewport :: "state \<Rightarrow> exn + viewport"
  focused_element_id :: "state \<Rightarrow> exn + string option"
  page_screenshot :: "state \<Rightarrow> exn + image"
  outer_html :: "state \<Rightarrow> exn + string"
  page_title :: "state \<Rightarrow> exn + string"
  page_url :: "state \<Rightarrow> string"
  bounding_box :: "state \<Rightarrow> string \<Rightarrow> exn + box option"
  popup :: "state \<Rightarrow> exn + nat"
  client_create :: "state \<Rightarrow> request \<Rightarrow> exn + response"
  convert_stream :: "state \<Rightarrow> string \<Rightarrow> string \<Rightarrow> exn + string"

text \<open>What \<^verbatim>\<open>generate_surfer_reply\<close> returns beside \<^verbatim>\<open>True\<close>.\<close>

datatype reply = ReplyStr string | ReplyMessage message

subsection \<open>Effects\<close>

text \<open>
  A computation takes the state and returns the new one, with its result or the
  exception it raised.
\<close>

type_synonym 'a M = "state \<Rightarrow> (exn + 'a) \<times> state"

definition return :: "'a \<Rightarrow> 'a M" where
  "return x = (\<lambda>s. (Inr x, s))"

definition raise :: "exn \<Rightarrow> 'a M" where
  "raise e = (\<lambda>s. (Inl e, s))"

definition bind :: "'a M \<Rightarrow> ('a \<Rightarrow> 'b M) \<Rightarrow> 'b M" where
  "bind m f = (\<lambda>s. case m s of (Inl e, s') \<Rightarrow> (Inl e, s') | (Inr x, s') \<Rightarrow> f x s')"

text \<open>
  \<^verbatim>\<open>try: m except ...\<close>: the handler gives the clause that matches the
  exception, or \<open>None\<close> when no clause does and the exception goes on.
\<close>

definition try_except :: "'a M \<Rightarrow> (exn \<Rightarrow> 'a M option) \<Rightarrow> 'a M" where
  "try_except m h =
     (\<lambda>s. case m s of
        (Inl e, s') \<Rightarrow> (case h e of Some k \<Rightarrow> k s' | None \<Rightarrow> (Inl e, s'))
      | (Inr x, s') \<Rightarrow> (Inr x, s'))"

definition of_result :: "exn + 'a \<Rightarrow> 'a M" where
  "of_result r = (case r of Inl e \<Rightarrow> raise e | Inr x \<Rightarrow> return x)"

definition record_call :: "call \<Rightarrow> exn option \<Rightarrow> state \<Rightarrow> state" where
  "record_call c r s = s\<lparr>trace := trace s @ [(c, r)]\<rparr>"

text \<open>A call whose result the agent reads, a call whose result it does not, and a
  local effect (printing, logging, sleeping, a debug file) that the model lets succeed.\<close>

definition ext :: "call \<Rightarrow> (state \<Rightarrow> exn + 'a) \<Rightarrow> 'a M" where
  "ext c f =
     (\<lambda>s. case f s of
        Inl e \<Rightarrow> (Inl e, record_call c (Some e) s)
      | Inr v \<Rightarrow> (Inr v, record_call c None s))"

definition call_unit :: "env \<Rightarrow> call \<Rightarrow> unit M" where
  "call_unit E c = ext c (\<lambda>s. case fails E s c of None \<Rightarrow> Inr () | Some e \<Rightarrow> Inl e)"

definition emit :: "call \<Rightarrow> unit M" where
  "emit c = (\<lambda>s. (Inr (), record_call c None s))"

text \<open>\<^verbatim>\<open>self._page.url\<close>, a property of the page.\<close>

definition get_url :: "env \<Rightarrow> string M" where
  "get_url E = (\<lambda>s. (Inr (page_url E s), s))"

subsection \<open>The helpers of the agent\<close>

text \<open>\<^verbatim>\<open>_target_name\<close>\<close>

definition target_name :: "string \<Rightarrow> rects \<Rightarrow> string option" where
  "target_name target rects =
     (case rects target of
        None \<Rightarrow> None
      | Some r \<Rightarrow> if aria_name r \<noteq> [] then Some (strip (aria_name r)) else None)"

text \<open>
  The three getters evaluate the page script first, inside
  \<^verbatim>\<open>try: ... except: pass\<close>, and then ask the page.
\<close>

definition eval_page_script :: "env \<Rightarrow> unit M" where
  "eval_page_script E = try_except (call_unit E EvalPageScript) (\<lambda>e. Some (return ()))"

definition get_interactive_rects :: "env \<Rightarrow> rects M" where
  "get_interactive_rects E =
     bind (eval_page_script E) (\<lambda>_.
     ext (Evaluate ''MultimodalWebSurfer.getInteractiveRects();'') (interactive_rects E))"

definition get_visual_viewport :: "env \<Rightarrow> viewport M" where
  "get_visual_viewport E =
     bind (eval_page_script E) (\<lambda>_.
     ext (Evaluate ''MultimodalWebSurfer.getVisualViewport();'') (visual_viewport E))"

definition get_focused_rect_id :: "env \<Rightarrow> string option M" where
  "get_focused_rect_id E =
     bind (eval_page_script E) (\<lambda>_.
     ext (Evaluate ''MultimodalWebSurfer.getFocusedElementId();'') (focused_element_id E))"

definition get_page_markdown :: "env \<Rightarrow> string M" where
  "get_page_markdown E =
     bind (ext (Evaluate ''document.documentElement.outerHTML;'') (outer_html E)) (\<lambda>html.
     bind (get_url E) (\<lambda>url.
     ext (ConvertStream html url) (\<lambda>s. convert_stream E s html url)))"

text \<open>
  \<^verbatim>\<open>_log_to_console\<close>: the loop over \<^verbatim>\<open>args\<close> raises TypeError unless
  \<^verbatim>\<open>args\<close> is a dictionary, \<^verbatim>\<open>None\<close> or empty. The colour of the
  printed line is left out.
\<close>

fun arg_strs :: "args \<Rightarrow> string list" where
  "arg_strs (ArgsDict d) = map (\<lambda>(a, v). a @ ''='' @ quoted (py_str v)) d"
| "arg_strs _ = []"

definition console_line :: "string \<Rightarrow> args \<Rightarrow> string" where
  "console_line fname args =
     ''\<newline>>>>>>>>> BROWSER ACTION '' @ (if fname = [] then ''[unknown]'' else fname)
     @ ''('' @ join '', '' (arg_strs args) @ '')''"

definition log_to_console :: "string \<Rightarrow> args \<Rightarrow> unit M" where
  "log_to_console fname args =
     (if args = ArgsOther then raise TypeError else emit (Print (console_line fname args)))"

text \<open>\<^verbatim>\<open>_on_new_page\<close>\<close>

definition on_new_page :: "env \<Rightarrow> nat \<Rightarrow> unit M" where
  "on_new_page E p =
     bind (\<lambda>s. (Inr (), s\<lparr>page := p\<rparr>)) (\<lambda>_.
     bind (call_unit E Route) (\<lambda>_.
     bind (call_unit E (SetViewportSize VIEWPORT_WIDTH VIEWPORT_HEIGHT)) (\<lambda>_.
     bind (emit (Sleep (2 / 10))) (\<lambda>_.
     bind (call_unit E AddInitScript) (\<lambda>_.
     bind (call_unit E WaitForLoadState) (\<lambda>_.
     bind (get_url E) (\<lambda>url.
     log_to_console ''new_tab'' (ArgsDict [(''url'', JStr url)]))))))))"

text \<open>\<^verbatim>\<open>_back\<close> (here \<open>go_back\<close>), \<^verbatim>\<open>_visit_page\<close>, \<^verbatim>\<open>_page_down\<close>, \<^verbatim>\<open>_page_up\<close>\<close>

definition go_back :: "env \<Rightarrow> unit M" where
  "go_back E = call_unit E GoBack"

definition visit_page :: "env \<Rightarrow> string \<Rightarrow> unit M" where
  "visit_page E url = call_unit E (Goto url)"

definition page_down :: "env \<Rightarrow> unit M" where
  "page_down E =
     call_unit E (Evaluate (''window.scrollBy(0, '' @ str_int (VIEWPORT_HEIGHT - 50) @ '');''))"

definition page_up :: "env \<Rightarrow> unit M" where
  "page_up E =
     call_unit E (Evaluate (''window.scrollBy(0, -'' @ str_int (VIEWPORT_HEIGHT - 50) @ '');''))"

text \<open>The selector \<^verbatim>\<open>f"[__elementId='{identifier}']"\<close>.\<close>

definition element_selector :: "string \<Rightarrow> string" where
  "element_selector identifier = ''[__elementId='' @ quoted identifier @ '']''"

text \<open>
  \<^verbatim>\<open>target.wait_for(timeout=100)\<close>, with its TimeoutError turned into
  \<^verbatim>\<open>ValueError("No such element.")\<close>.
\<close>

definition wait_for_element :: "env \<Rightarrow> string \<Rightarrow> unit M" where
  "wait_for_element E target =
     try_except (call_unit E (WaitFor target 100))
       (\<lambda>e. if is_TimeoutError e then Some (raise (ValueError ''No such element.''))
            else None)"

text \<open>
  \<^verbatim>\<open>_click_id\<close>: the click, the wait for a popup and \<^verbatim>\<open>_on_new_page\<close>
  stand inside \<^verbatim>\<open>try: ... except TimeoutError: pass\<close>. A bounding box that is
  \<^verbatim>\<open>None\<close> makes \<^verbatim>\<open>box["x"]\<close> a TypeError.
\<close>

definition click_id :: "env \<Rightarrow> string \<Rightarrow> unit M" where
  "click_id E identifier =
     bind (wait_for_element E (element_selector identifier)) (\<lambda>_.
     bind (ext (BoundingBox (element_selector identifier))
             (\<lambda>s. bounding_box E s (element_selector identifier))) (\<lambda>b.
     try_except
       (bind (case b of
                None \<Rightarrow> raise TypeError
              | Some bx \<Rightarrow> call_unit E (MouseClick (box_x bx + box_width bx / 2)
                                                    (box_y bx + box_height bx / 2))) (\<lambda>_.
        bind (ext (ExpectPopup 1000) (popup E)) (\<lambda>p.
        on_new_page E p)))
       (\<lambda>e. if is_TimeoutError e then Some (return ()) else None)))"

text \<open>\<^verbatim>\<open>_fill_id\<close>\<close>

definition fill_id :: "env \<Rightarrow> string \<Rightarrow> string \<Rightarrow> unit M" where
  "fill_id E identifier v =
     bind (wait_for_element E (element_selector identifier)) (\<lambda>_.
     bind (call_unit E (Focus (element_selector identifier))) (\<lambda>_.
     bind (call_unit E (Fill (element_selector identifier) v)) (\<lambda>_.
     call_unit E (KeyboardPress ''Enter''))))"

text \<open>\<^verbatim>\<open>_scroll_id\<close>: the script it evaluates, and the call.\<close>

definition scroll_script :: "string \<Rightarrow> string \<Rightarrow> string" where
  \<open>scroll_script identifier direction =
     ''\<newline>        (function() {\<newline>''
     @ ''            let elm = document.querySelector("[__elementId='' @ quoted identifier @ '']");\<newline>''
     @ ''            if (elm) {\<newline>''
     @ ''                if ("'' @ direction @ ''" == "up") {\<newline>''
     @ ''                    elm.scrollTop = Math.max(0, elm.scrollTop - elm.clientHeight);\<newline>''
     @ ''                }\<newline>''
     @ ''                else {\<newline>''
     @ ''                    elm.scrollTop = Math.min(elm.scrollHeight - elm.clientHeight, elm.scrollTop + elm.clientHeight);\<newline>''
     @ ''                }\<newline>''
     @ ''            }\<newline>''
     @ ''        })();\<newline>    ''\<close>

definition scroll_id :: "env \<Rightarrow> string \<Rightarrow> string \<Rightarrow> unit M" where
  "scroll_id E identifier direction = call_unit E (Evaluate (scroll_script identifier direction))"

text \<open>\<^verbatim>\<open>_make_mm_message\<close>, with the default role.\<close>

definition make_mm_message :: "string \<Rightarrow> image \<Rightarrow> message" where
  "make_mm_message text_content image_content =
     \<lparr>msg_role = ''user'', msg_content = Parts [TextPart text_content, ImagePart image_content]\<rparr>"

text \<open>
  \<^verbatim>\<open>_summarize_page\<close>. The loop that fills the buffer stops at the first piece
  of the page that would not fit.
\<close>

fun fill_buffer :: "(string \<Rightarrow> int) \<Rightarrow> int \<Rightarrow> string \<Rightarrow> string list \<Rightarrow> string" where
  "fill_buffer ct token_limit buffer [] = buffer"
| "fill_buffer ct token_limit buffer (line # lines) =
     (if ct (buffer @ line) + 1024 > token_limit then buffer
      else fill_buffer ct token_limit (buffer @ line) lines)"

definition summary_prompt :: "string \<Rightarrow> string option \<Rightarrow> string \<Rightarrow> string" where
  "summary_prompt title question buffer =
     ''We are visiting the webpage '' @ quoted title
     @ ''. Its full-text contents are pasted below, along with a screenshot of the page''
     @ [CHR 0x27] @ ''s current viewport.''
     @ (case question of
          Some q \<Rightarrow> '' Please summarize the webpage into one or two paragraphs with respect to ''
                     @ quoted q @ '':\<newline>\<newline>'' @ buffer
        | None \<Rightarrow> '' Please summarize the webpage into one or two paragraphs:\<newline>\<newline>''
                   @ buffer)"

definition system_message :: message where
  "system_message =
     \<lparr>msg_role = ''system'',
      msg_content =
        Str ''You are a helpful assistant that can summarize long documents to answer question.''\<rparr>"

definition summarize_page :: "env \<Rightarrow> string option \<Rightarrow> int \<Rightarrow> string M" where
  "summarize_page E question token_limit =
     bind (get_page_markdown E) (\<lambda>page_markdown.
     if length (strip (fill_buffer (count_token E) token_limit []
                         (re_split_newlines page_markdown))) = 0
     then return ''Nothing to summarize.''
     else
       bind (get_url E) (\<lambda>url.
       bind (try_except (ext Title (page_title E)) (\<lambda>e. Some (return url))) (\<lambda>title.
       bind (ext Screenshot (page_screenshot E)) (\<lambda>screenshot.
       bind (ext (ClientCreate
                    \<lparr>req_messages =
                       [system_message,
                        make_mm_message
                          (summary_prompt title question
                             (strip (fill_buffer (count_token E) token_limit []
                                       (re_split_newlines page_markdown))))
                          (resize E screenshot)],
                     req_tools = None\<rparr>)
               (\<lambda>s. client_create E s
                    \<lparr>req_messages =
                       [system_message,
                        make_mm_message
                          (summary_prompt title question
                             (strip (fill_buffer (count_token E) token_limit []
                                       (re_split_newlines page_markdown))))
                          (resize E screenshot)],
                     req_tools = None\<rparr>)) (\<lambda>response.
       case extract_text_or_completion_object E response of
         [] \<Rightarrow> raise IndexError
       | extracted_response # _ \<Rightarrow> return extracted_response)))))"

subsection \<open>The turn: \<^verbatim>\<open>generate_surfer_reply\<close>\<close>

text \<open>The history: the messages, each with its content flattened to a string.\<close>

definition history_of :: "env \<Rightarrow> message list option \<Rightarrow> message list" where
  "history_of E messages =
     map (\<lambda>m. m\<lparr>msg_content := Str (content_str E (msg_content m))\<rparr>)
       (case messages of None \<Rightarrow> oai_messages E | Some ms \<Rightarrow> ms)"

text \<open>The tools offered to the model in this turn.\<close>

definition available_tools :: "env \<Rightarrow> viewport \<Rightarrow> bool \<Rightarrow> tool list" where
  "available_tools E viewport has_scrollable_elements =
     [TOOL_VISIT_URL, TOOL_HISTORY_BACK, TOOL_CLICK, TOOL_TYPE, TOOL_SUMMARIZE_PAGE,
      TOOL_READ_PAGE_AND_ANSWER]
     @ (if allowed (navigation_allow_list E) ''https://www.bing.com/''
        then [TOOL_WEB_SEARCH] else [])
     @ (if pageTop viewport > 5 then [TOOL_PAGE_UP] else [])
     @ (if pageTop viewport + height viewport + 5 < scrollHeight viewport
        then [TOOL_PAGE_DOWN] else [])
     @ (if has_scrollable_elements
        then [TOOL_SCROLL_ELEMENT_UP, TOOL_SCROLL_ELEMENT_DOWN] else [])"

definition focused_hint :: "rects \<Rightarrow> string option \<Rightarrow> string" where
  "focused_hint rects focused =
     (case focused of
        None \<Rightarrow> []
      | Some f \<Rightarrow>
          if f = [] then []
          else ''\<newline>The ''
               @ (case rects f of None \<Rightarrow> ''control'' | Some r \<Rightarrow> role r)
               @ '' with ID '' @ f @ '' ''
               @ (case rects f of
                    None \<Rightarrow> []
                  | Some r \<Rightarrow>
                      if aria_name r \<noteq> [] then ''(and name '' @ quoted (aria_name r) @ '') ''
                      else [])
               @ ''currently has the input focus.\<newline>'')"

text \<open>The loop over the visible rectangles: the text of the labels, and whether one
  of them scrolls.\<close>

definition rect_actions :: "rect \<Rightarrow> string list" where
  "rect_actions r =
     (if role r \<in> set [''textbox'', ''searchbox'', ''search'']
      then [quoted ''input_text''] else [quoted ''click''])
     @ (if v_scrollable r
        then [quoted ''scroll_element_up'', quoted ''scroll_element_down''] else [])"

definition rect_label :: "string \<Rightarrow> rect \<Rightarrow> string" where
  \<open>rect_label r rc =
     ''\<newline>   { "id": '' @ r @ '', "aria-role": "'' @ role rc
     @ ''", "html_tag": "'' @ tag_name rc
     @ ''", "actions": "'' @ ''['' @ join '','' (rect_actions rc) @ '']''
     @ ''", "name": "'' @ aria_name rc @ ''" },''\<close>

fun label_loop :: "rects \<Rightarrow> string \<times> bool \<Rightarrow> string list \<Rightarrow> string \<times> bool" where
  "label_loop rects (text_labels, has_scrollable_elements) [] =
     (text_labels, has_scrollable_elements)"
| "label_loop rects (text_labels, has_scrollable_elements) (r # rs) =
     (case rects r of
        None \<Rightarrow> label_loop rects (text_labels, has_scrollable_elements) rs
      | Some rc \<Rightarrow>
          label_loop rects
            (text_labels @ rect_label r rc, has_scrollable_elements \<or> v_scrollable rc) rs)"

definition text_prompt :: "string \<Rightarrow> string \<Rightarrow> string \<Rightarrow> string list \<Rightarrow> string" where
  "text_prompt url text_labels hint tool_names =
     strip (''\<newline>Consider the following screenshot of a web browser, which is open to the page ''
       @ quoted url
       @ ''. In this screenshot, interactive elements are outlined in bounding boxes of different colors. Each bounding box has a numeric ID label in the same color. Additional information about each visible label is listed below:\<newline>\<newline>[\<newline>''
       @ text_labels @ ''\<newline>]\<newline>'' @ hint
       @ ''\<newline>You are to respond to the user'' @ [CHR 0x27]
       @ ''s most recent request by selecting an appropriate tool from the provided set of browser tools (''
       @ join '', '' tool_names
       @ ''), or by answering the question directly if possible.\<newline>'')"

text \<open>The request of the turn: the history, then the prompt with the scaled screenshot.\<close>

definition surfer_request ::
  "env \<Rightarrow> message list option \<Rightarrow> rects \<Rightarrow> viewport \<Rightarrow> image \<Rightarrow> string list
     \<Rightarrow> string option \<Rightarrow> string \<Rightarrow> request" where
  "surfer_request E messages rects viewport som_screenshot visible_rects focused url =
     \<lparr>req_messages =
        history_of E messages
        @ [make_mm_message
             (text_prompt url (fst (label_loop rects ([], False) visible_rects))
                (focused_hint rects focused)
                (map (tool_name E)
                   (available_tools E viewport
                      (snd (label_loop rects ([], False) visible_rects)))))
             (resize E som_screenshot)],
      req_tools =
        Some (available_tools E viewport (snd (label_loop rects ([], False) visible_rects)))\<rparr>"

text \<open>\<^verbatim>\<open>args.get(key)\<close>: only a dictionary has the method.\<close>

fun args_get :: "args \<Rightarrow> string \<Rightarrow> exn + jval" where
  "args_get (ArgsDict d) k = Inr (case map_of d k of None \<Rightarrow> JNone | Some v \<Rightarrow> v)"
| "args_get _ k = Inl AttributeError"

definition bing_search_url :: "string \<Rightarrow> string" where
  "bing_search_url query = ''https://www.bing.com/search?q='' @ quote_plus query @ ''&FORM=QBLH''"

text \<open>The description of an action on an element, with or without the element's name.\<close>

definition described :: "string option \<Rightarrow> (string \<Rightarrow> string) \<Rightarrow> string \<Rightarrow> string" where
  "described name with_name without_name =
     (case name of
        None \<Rightarrow> without_name
      | Some n \<Rightarrow> if n \<noteq> [] then with_name n else without_name)"

text \<open>The branch on the name of the tool, lines 398 to 478.\<close>

definition dispatch :: "env \<Rightarrow> rects \<Rightarrow> string \<Rightarrow> args \<Rightarrow> string M" where
  "dispatch E rects name args =
     (if name = ''visit_url'' then
        bind (of_result (args_get args ''url'')) (\<lambda>url.
        case url of
          JStr u \<Rightarrow>
            bind (if list_ex (startswith u) [''https://'', ''http://'', ''file://'', ''about:'']
                  then visit_page E u
                  else if CHR 0x20 \<in> set u then visit_page E (bing_search_url u)
                  else visit_page E (''https://'' @ u)) (\<lambda>_.
            return (''I typed '' @ quoted u @ '' into the browser address bar.''))
        | _ \<Rightarrow> raise AttributeError)
      else if name = ''history_back'' then
        bind (go_back E) (\<lambda>_. return ''I clicked the browser back button.'')
      else if name = ''web_search'' then
        bind (of_result (args_get args ''query'')) (\<lambda>query.
        case query of
          JStr q \<Rightarrow>
            bind (visit_page E (bing_search_url q)) (\<lambda>_.
            return (''I typed '' @ quoted q @ '' into the browser search bar.''))
        | _ \<Rightarrow> raise TypeError)
      else if name = ''page_up'' then
        bind (page_up E) (\<lambda>_. return ''I scrolled up one page in the browser.'')
      else if name = ''page_down'' then
        bind (page_down E) (\<lambda>_. return ''I scrolled down one page in the browser.'')
      else if name = ''click'' then
        bind (of_result (args_get args ''target_id'')) (\<lambda>target_id.
        bind (click_id E (py_str target_id)) (\<lambda>_.
        return (described (target_name (py_str target_id) rects)
                  (\<lambda>n. ''I clicked '' @ quoted n @ ''.'') ''I clicked the control.'')))
      else if name = ''input_text'' then
        bind (of_result (args_get args ''input_field_id'')) (\<lambda>input_field_id.
        bind (of_result (args_get args ''text_value'')) (\<lambda>text_value.
        bind (fill_id E (py_str input_field_id) (py_str text_value)) (\<lambda>_.
        return (described (target_name (py_str input_field_id) rects)
                  (\<lambda>n. ''I typed '' @ quoted (py_str text_value) @ '' into '' @ quoted n @ ''.'')
                  (''I input '' @ quoted (py_str text_value) @ ''.'')))))
      else if name = ''scroll_element_up'' then
        bind (of_result (args_get args ''target_id'')) (\<lambda>target_id.
        bind (scroll_id E (py_str target_id) ''up'') (\<lambda>_.
        return (described (target_name (py_str target_id) rects)
                  (\<lambda>n. ''I scrolled '' @ quoted n @ '' up.'') ''I scrolled the control up.'')))
      else if name = ''scroll_element_down'' then
        bind (of_result (args_get args ''target_id'')) (\<lambda>target_id.
        bind (scroll_id E (py_str target_id) ''down'') (\<lambda>_.
        return (described (target_name (py_str target_id) rects)
                  (\<lambda>n. ''I scrolled '' @ quoted n @ '' down.'')
                  ''I scrolled the control down.'')))
      else if name = ''answer_question'' then
        bind (of_result (args_get args ''question'')) (\<lambda>question.
        summarize_page E (Some (py_str question)) 100000)
      else if name = ''summarize_page'' then
        summarize_page E None 100000
      else
        bind (emit (LogEvent ''Unknown tool'')) (\<lambda>_.
        raise (ValueError (''Unknown tool '' @ quoted name))))"

text \<open>
  Lines 392 to 396, then the branch: only the first tool call is read. Without a tool
  call the description of the action stays empty.
\<close>

definition run_tool_calls :: "env \<Rightarrow> rects \<Rightarrow> llm_message \<Rightarrow> string M" where
  "run_tool_calls E rects message =
     (case tool_calls message of
        [] \<Rightarrow> return []
      | tc # _ \<Rightarrow>
          bind (of_result (json_loads E (function_arguments tc))) (\<lambda>args.
          bind (log_to_console (function_name tc) args) (\<lambda>_.
          dispatch E rects (function_name tc) args)))"

definition position_text :: "int \<Rightarrow> int \<Rightarrow> string" where
  "position_text percent_scrolled percent_visible =
     (if percent_scrolled < 1 then ''at the top of the page''
      else if percent_scrolled + percent_visible \<ge> 99 then ''at the bottom of the page''
      else str_int percent_scrolled @ ''% down from the top of the page'')"

text \<open>Lines 490 to 497: the two percentages and the words for the position.\<close>

definition describe_viewport :: "viewport \<Rightarrow> exn + (int \<times> int \<times> string)" where
  "describe_viewport viewport =
     (case percent (height viewport) (scrollHeight viewport) of
        Inl e \<Rightarrow> Inl e
      | Inr percent_visible \<Rightarrow>
          (case percent (pageTop viewport) (scrollHeight viewport) of
             Inl e \<Rightarrow> Inl e
           | Inr percent_scrolled \<Rightarrow>
               Inr (percent_visible, percent_scrolled,
                    position_text percent_scrolled percent_visible)))"

text \<open>Lines 485 to 523: the description of the new page and its screenshot.\<close>

definition observation_text ::
  "string option \<Rightarrow> string \<Rightarrow> string \<Rightarrow> string \<Rightarrow> int \<Rightarrow> string \<Rightarrow> string" where
  "observation_text message_content action_description title url percent_visible position =
     strip (re_sub_space re_DOTALL
       ((case message_content of None \<Rightarrow> ''None'' | Some c \<Rightarrow> c)
        @ ''\<newline>\<newline>'' @ action_description
        @ ''\<newline>\<newline>Here is a screenshot of ['' @ title @ '']('' @ url
        @ ''). The viewport shows '' @ str_int percent_visible
        @ ''% of the webpage, and is positioned '' @ position @ ''.''))"

definition observe :: "env \<Rightarrow> llm_message \<Rightarrow> string \<Rightarrow> reply M" where
  "observe E message action_description =
     bind (call_unit E WaitForLoadState) (\<lambda>_.
     bind (emit (Sleep 2)) (\<lambda>_.
     bind (get_visual_viewport E) (\<lambda>viewport.
     bind (of_result (describe_viewport viewport)) (\<lambda>(percent_visible, percent_scrolled, position).
     bind (ext Screenshot (page_screenshot E)) (\<lambda>new_screenshot.
     bind (if debug_dir E \<noteq> [] then emit (SaveImage ''screenshot.png'' new_screenshot)
           else return ()) (\<lambda>_.
     bind (if logging_enabled E then
             bind (call_unit E Cookies) (\<lambda>_.
             bind (emit (LogEvent ''cookies'')) (\<lambda>_.
             bind (ext Title (page_title E)) (\<lambda>_.
             emit (LogEvent ''viewport_state''))))
           else return ()) (\<lambda>_.
     bind (ext Title (page_title E)) (\<lambda>title.
     bind (get_url E) (\<lambda>url.
     return (ReplyMessage
               (make_mm_message
                  (observation_text (content message) action_description title url
                     percent_visible position)
                  new_screenshot)))))))))))"

text \<open>
  The tool calls run inside \<^verbatim>\<open>try: ... except ValueError as e\<close>, whose handler
  returns \<^verbatim>\<open>(True, str(e))\<close> from the turn.
\<close>

definition try_tool_calls :: "env \<Rightarrow> rects \<Rightarrow> llm_message \<Rightarrow> (string + string) M" where
  "try_tool_calls E rects message =
     try_except
       (bind (run_tool_calls E rects message) (\<lambda>action_description.
        return (Inr action_description)))
       (\<lambda>e. case as_ValueError e of
               None \<Rightarrow> None
             | Some m \<Rightarrow>
                 Some (bind (if logging_enabled E then emit (LogEvent ''ValueError'')
                             else return ()) (\<lambda>_.
                       return (Inl m))))"

text \<open>Lines 391 to 523: what the turn does with the message of the model.\<close>

definition act_and_observe :: "env \<Rightarrow> rects \<Rightarrow> llm_message \<Rightarrow> (bool \<times> reply) M" where
  "act_and_observe E rects message =
     bind (try_tool_calls E rects message) (\<lambda>r.
     case r of
       Inl m \<Rightarrow> return (True, ReplyStr m)
     | Inr action_description \<Rightarrow>
         bind (observe E message action_description) (\<lambda>observation.
         return (True, observation)))"

text \<open>Lines 298 to 388: the state of the page, the prompt and the call of the model.\<close>

definition ask_model :: "env \<Rightarrow> message list option \<Rightarrow> (rects \<times> llm_message) M" where
  "ask_model E messages =
     bind (get_interactive_rects E) (\<lambda>rects.
     bind (get_visual_viewport E) (\<lambda>viewport.
     bind (ext Screenshot (page_screenshot E)) (\<lambda>screenshot.
     bind (if debug_dir E \<noteq> []
           then emit (SaveImage ''screenshot.png'' (fst (add_set_of_mark E screenshot rects)))
           else return ()) (\<lambda>_.
     bind (get_focused_rect_id E) (\<lambda>focused.
     bind (get_url E) (\<lambda>url.
     bind (if debug_dir E \<noteq> []
           then emit (SaveImage ''screenshot_scaled.png''
                        (resize E (fst (add_set_of_mark E screenshot rects))))
           else return ()) (\<lambda>_.
     bind (ext (ClientCreate
                  (surfer_request E messages rects viewport
                     (fst (add_set_of_mark E screenshot rects))
                     (snd (add_set_of_mark E screenshot rects)) focused url))
             (\<lambda>s. client_create E s
                  (surfer_request E messages rects viewport
                     (fst (add_set_of_mark E screenshot rects))
                     (snd (add_set_of_mark E screenshot rects)) focused url))) (\<lambda>response.
     case choices response of
       [] \<Rightarrow> raise IndexError
     | message # _ \<Rightarrow> return (rects, message)))))))))"

definition generate_surfer_reply :: "env \<Rightarrow> message list option \<Rightarrow> (bool \<times> reply) M" where
  "generate_surfer_reply E messages =
     bind (ask_model E messages) (\<lambda>(rects, message).
     act_and_observe E rects message)"

text \<open>The names the branch compares the name of the tool with.\<close>

definition tool_names :: "string list" where
  "tool_names =
     [''visit_url'', ''history_back'', ''web_search'', ''page_up'', ''page_down'', ''click'',
      ''input_text'', ''scroll_element_up'', ''scroll_element_down'', ''answer_question'',
      ''summarize_page'']"

subsection \<open>An environment to run the turn in\<close>

text \<open>
  A page that is entirely visible, with no interactive element, whose allow list admits
  no URL; every call succeeds but the wait for a popup, and the model answers without a
  tool call. A screenshot shows one star for every call made before it, and
  \<^verbatim>\<open>json.loads\<close> reads the empty object and rejects everything else, as it
  rejects the empty string.
\<close>

definition quiet_env :: env where
  "quiet_env =
     \<lparr>debug_dir = ''d'',
      navigation_allow_list = AllowList [],
      logging_enabled = False,
      oai_messages = [],
      tool_name = (\<lambda>t. ''t''),
      content_str = (\<lambda>c. []),
      add_set_of_mark = (\<lambda>screenshot rects. (screenshot, [])),
      resize = (\<lambda>image. image),
      count_token = (\<lambda>s. int (length s)),
      json_loads =
        (\<lambda>s. if s = ''{}'' then Inr (ArgsDict [])
             else Inl (JSONDecodeError ''Expecting value: line 1 column 1 (char 0)'')),
      extract_text_or_completion_object = (\<lambda>r. [''A summary.'']),
      fails = (\<lambda>s c. None),
      interactive_rects = (\<lambda>s. Inr Map.empty),
      visual_viewport = (\<lambda>s. Inr \<lparr>pageTop = 0, height = 900, scrollHeight = 900\<rparr>),
      focused_element_id = (\<lambda>s. Inr None),
      page_screenshot = (\<lambda>s. Inr (replicate (length (trace s)) CHR ''*'')),
      outer_html = (\<lambda>s. Inr ''h''),
      page_title = (\<lambda>s. Inr ''T''),
      page_url = (\<lambda>s. ''u''),
      bounding_box = (\<lambda>s target. Inr (Some \<lparr>box_x = 10, box_y = 20, box_width = 4, box_height = 6\<rparr>)),
      popup = (\<lambda>s. Inl TimeoutError),
      client_create = (\<lambda>s r. Inr \<lparr>choices = [\<lparr>content = Some ''ok'', tool_calls = []\<rparr>]\<rparr>),
      convert_stream = (\<lambda>s html url. Inr html)\<rparr>"

definition start :: state where
  "start = \<lparr>page = 0, trace = []\<rparr>"

text \<open>
  The same, with a model that asks for one tool, with arguments that
  \<^verbatim>\<open>json.loads\<close> reads as given.
\<close>

definition tool_env :: "string \<Rightarrow> string \<Rightarrow> args \<Rightarrow> env" where
  "tool_env name arguments args =
     quiet_env
       \<lparr>json_loads := (\<lambda>s. if s = arguments then Inr args else json_loads quiet_env s),
        client_create :=
          (\<lambda>s r. Inr \<lparr>choices =
             [\<lparr>content = Some ''ok'',
               tool_calls = [\<lparr>function_name = name, function_arguments = arguments\<rparr>]\<rparr>]\<rparr>)\<rparr>"

text \<open>The tools a call offers to the model, if it is a call of the model with tools.\<close>

fun offered_tools :: "call \<times> exn option \<Rightarrow> tool list option" where
  "offered_tools (ClientCreate req, r) = req_tools req"
| "offered_tools _ = None"

text \<open>A long page, scrolled down, with an allow list that admits every URL.\<close>

definition scrolled_env :: env where
  "scrolled_env =
     quiet_env
       \<lparr>navigation_allow_list := AllowFn (\<lambda>url. True),
        visual_viewport := (\<lambda>s. Inr \<lparr>pageTop = 1000, height = 900, scrollHeight = 3000\<rparr>)\<rparr>"

subsection \<open>The calls of a computation\<close>

definition new_calls :: "'a M \<Rightarrow> state \<Rightarrow> (call \<times> exn option) list" where
  "new_calls m s = drop (length (trace s)) (trace (snd (m s)))"

text \<open>
  \<open>calls_in C m\<close>: whatever the state, \<open>m\<close> only adds calls to the trace, and
  every call it adds satisfies \<open>C\<close>.
\<close>

definition calls_in :: "(call \<Rightarrow> bool) \<Rightarrow> 'a M \<Rightarrow> bool" where
  "calls_in C m = (\<forall>s. \<exists>evs. trace (snd (m s)) = trace s @ evs \<and> list_all (\<lambda>ev. C (fst ev)) evs)"

text \<open>Every call but \<^verbatim>\<open>client.create\<close>.\<close>

fun no_create :: "call \<Rightarrow> bool" where
  "no_create (ClientCreate req) = False"
| "no_create _ = True"

text \<open>The number of calls of \<^verbatim>\<open>client.create\<close> among some calls.\<close>

definition creates :: "(call \<times> exn option) list \<Rightarrow> nat" where
  "creates evs = length (filter (\<lambda>ev. \<not> no_create (fst ev)) evs)"

text \<open>
  \<open>creates_within lo hi m\<close>: \<open>m\<close> calls the model at most \<open>hi\<close> times, and at
  least \<open>lo\<close> times when it returns.
\<close>

definition creates_within :: "nat \<Rightarrow> nat \<Rightarrow> 'a M \<Rightarrow> bool" where
  "creates_within lo hi m =
     (calls_in (\<lambda>c. True) m
      \<and> (\<forall>s. creates (new_calls m s) \<le> hi
             \<and> (\<forall>x. fst (m s) = Inr x \<longrightarrow> lo \<le> creates (new_calls m s))))"

text \<open>
  \<open>raises_only I m\<close>: when \<open>m\<close> raises an exception, either the exception and the
  state satisfy \<open>I\<close>, or the last call made is the one that raised it.
\<close>

definition raises_only :: "(exn \<Rightarrow> state \<Rightarrow> bool) \<Rightarrow> 'a M \<Rightarrow> bool" where
  "raises_only I m =
     (\<forall>s e s'. m s = (Inl e, s') \<longrightarrow> I e s' \<or> (\<exists>c tr. trace s' = tr @ [(c, Some e)]))"

text \<open>
  The model asks for \<^verbatim>\<open>history_back\<close> with an empty string of arguments, which
  \<^verbatim>\<open>json.loads\<close> rejects.
\<close>

definition empty_arguments_env :: env where
  "empty_arguments_env =
     quiet_env
       \<lparr>client_create :=
          (\<lambda>s r. Inr \<lparr>choices =
             [\<lparr>content = Some ''ok'',
               tool_calls = [\<lparr>function_name = ''history_back'', function_arguments = []\<rparr>]\<rparr>]\<rparr>)\<rparr>"

text \<open>The model asks for a click on element 7, and no such element turns up in time.\<close>

definition missing_element_env :: env where
  \<open>missing_element_env =
     (tool_env ''click'' ''{"target_id": 7}'' (ArgsDict [(''target_id'', JOther ''7'')]))
       \<lparr>fails := (\<lambda>s c. case c of WaitFor sel t \<Rightarrow> Some TimeoutError | _ \<Rightarrow> None)\<rparr>\<close>

section \<open>Properties\<close>

subsection \<open>Running computations\<close>

lemma bind_Inr: "m s = (Inr x, s') \<Longrightarrow> bind m f s = f x s'"
  by (simp add: bind_def)

lemma bind_Inl: "m s = (Inl e, s') \<Longrightarrow> bind m f s = (Inl e, s')"
  by (simp add: bind_def)

lemma bind_apply:
  "bind m f s = (case m s of (Inl e, s') \<Rightarrow> (Inl e, s') | (Inr x, s') \<Rightarrow> f x s')"
  by (simp add: bind_def)

lemma return_apply: "return x s = (Inr x, s)"
  by (simp add: return_def)

lemma raise_apply: "raise e s = (Inl e, s)"
  by (simp add: raise_def)

lemma emit_apply: "emit c s = (Inr (), record_call c None s)"
  by (simp add: emit_def)

lemma ext_apply:
  "ext c f s =
     (case f s of Inl e \<Rightarrow> (Inl e, record_call c (Some e) s)
      | Inr v \<Rightarrow> (Inr v, record_call c None s))"
  by (simp add: ext_def)

lemma call_unit_apply:
  "call_unit E c s =
     (case fails E s c of None \<Rightarrow> (Inr (), record_call c None s)
      | Some e \<Rightarrow> (Inl e, record_call c (Some e) s))"
  by (simp add: call_unit_def ext_def split: option.splits)

lemma try_except_apply:
  "try_except m h s =
     (case m s of
        (Inl e, s') \<Rightarrow> (case h e of Some k \<Rightarrow> k s' | None \<Rightarrow> (Inl e, s'))
      | (Inr x, s') \<Rightarrow> (Inr x, s'))"
  by (simp add: try_except_def)

lemma of_result_apply:
  "of_result r s = (case r of Inl e \<Rightarrow> (Inl e, s) | Inr x \<Rightarrow> (Inr x, s))"
  by (simp add: of_result_def raise_def return_def split: sum.splits)

lemma get_url_apply: "get_url E s = (Inr (page_url E s), s)"
  by (simp add: get_url_def)

lemma trace_record_call: "trace (record_call c r s) = trace s @ [(c, r)]"
  by (simp add: record_call_def)

lemma page_record_call: "page (record_call c r s) = page s"
  by (simp add: record_call_def)

lemmas run_simps =
  bind_apply return_apply raise_apply emit_apply ext_apply call_unit_apply try_except_apply
  of_result_apply get_url_apply trace_record_call page_record_call

subsection \<open>The calls a computation adds\<close>

named_theorems calls_intros

lemma calls_inI:
  assumes "\<And>s. \<exists>evs. trace (snd (m s)) = trace s @ evs \<and> list_all (\<lambda>ev. C (fst ev)) evs"
  shows "calls_in C m"
  using assms by (simp add: calls_in_def)

lemma calls_inD:
  assumes "calls_in C m"
  obtains evs where "trace (snd (m s)) = trace s @ evs" and "list_all (\<lambda>ev. C (fst ev)) evs"
  using assms unfolding calls_in_def by blast

lemma calls_in_return [calls_intros]: "calls_in C (return x)"
  by (rule calls_inI) (simp add: return_apply)

lemma calls_in_raise [calls_intros]: "calls_in C (raise e)"
  by (rule calls_inI) (simp add: raise_apply)

lemma calls_in_of_result [calls_intros]: "calls_in C (of_result r)"
  by (rule calls_inI) (simp add: of_result_apply split: sum.splits)

lemma calls_in_get_url [calls_intros]: "calls_in C (get_url E)"
  by (rule calls_inI) (simp add: get_url_apply)

lemma calls_in_emit [calls_intros]: "C c \<Longrightarrow> calls_in C (emit c)"
  by (rule calls_inI) (simp add: emit_apply trace_record_call)

lemma calls_in_ext [calls_intros]: "C c \<Longrightarrow> calls_in C (ext c f)"
  by (rule calls_inI) (simp add: ext_apply trace_record_call split: sum.splits)

lemma calls_in_call_unit [calls_intros]: "C c \<Longrightarrow> calls_in C (call_unit E c)"
  by (simp add: call_unit_def calls_in_ext)

lemma calls_in_bind [calls_intros]:
  assumes "calls_in C m" and "\<And>x. calls_in C (f x)"
  shows "calls_in C (bind m f)"
proof (rule calls_inI)
  fix s
  from assms(1) obtain evs1 where 1: "trace (snd (m s)) = trace s @ evs1"
    and c1: "list_all (\<lambda>ev. C (fst ev)) evs1"
    by (rule calls_inD)
  show "\<exists>evs. trace (snd (bind m f s)) = trace s @ evs \<and> list_all (\<lambda>ev. C (fst ev)) evs"
  proof (cases "fst (m s)")
    case (Inl e)
    then have "bind m f s = (Inl e, snd (m s))"
      by (cases "m s") (simp add: bind_apply)
    with 1 c1 show ?thesis by auto
  next
    case (Inr x)
    then have b: "bind m f s = f x (snd (m s))"
      by (cases "m s") (simp add: bind_apply)
    from assms(2) [of x] obtain evs2 where 2: "trace (snd (f x (snd (m s)))) = trace (snd (m s)) @ evs2"
      and c2: "list_all (\<lambda>ev. C (fst ev)) evs2"
      by (rule calls_inD)
    from 1 2 c1 c2 b show ?thesis by auto
  qed
qed

lemma calls_in_try_except [calls_intros]:
  assumes "calls_in C m" and "\<And>e k. h e = Some k \<Longrightarrow> calls_in C k"
  shows "calls_in C (try_except m h)"
proof (rule calls_inI)
  fix s
  from assms(1) obtain evs1 where 1: "trace (snd (m s)) = trace s @ evs1"
    and c1: "list_all (\<lambda>ev. C (fst ev)) evs1"
    by (rule calls_inD)
  show "\<exists>evs. trace (snd (try_except m h s)) = trace s @ evs \<and> list_all (\<lambda>ev. C (fst ev)) evs"
  proof (cases "fst (m s)")
    case (Inr x)
    then have "try_except m h s = (Inr x, snd (m s))"
      by (cases "m s") (simp add: try_except_apply)
    with 1 c1 show ?thesis by auto
  next
    case (Inl e)
    show ?thesis
    proof (cases "h e")
      case None
      with Inl have "try_except m h s = (Inl e, snd (m s))"
        by (cases "m s") (simp add: try_except_apply)
      with 1 c1 show ?thesis by auto
    next
      case (Some k)
      with Inl have b: "try_except m h s = k (snd (m s))"
        by (cases "m s") (simp add: try_except_apply)
      from assms(2) [OF Some] obtain evs2 where 2: "trace (snd (k (snd (m s)))) = trace (snd (m s)) @ evs2"
        and c2: "list_all (\<lambda>ev. C (fst ev)) evs2"
        by (rule calls_inD)
      from 1 2 c1 c2 b show ?thesis by auto
    qed
  qed
qed

lemma calls_in_if [calls_intros]:
  "(b \<Longrightarrow> calls_in C m) \<Longrightarrow> (\<not> b \<Longrightarrow> calls_in C n) \<Longrightarrow> calls_in C (if b then m else n)"
  by simp

lemma calls_in_case_option [calls_intros]:
  "(x = None \<Longrightarrow> calls_in C m) \<Longrightarrow> (\<And>y. x = Some y \<Longrightarrow> calls_in C (f y)) \<Longrightarrow> calls_in C (case x of None \<Rightarrow> m | Some y \<Rightarrow> f y)"
  by (cases x) simp_all

lemma calls_in_case_list [calls_intros]:
  "(xs = [] \<Longrightarrow> calls_in C m) \<Longrightarrow> (\<And>y ys. xs = y # ys \<Longrightarrow> calls_in C (f y ys)) \<Longrightarrow> calls_in C (case xs of [] \<Rightarrow> m | y # ys \<Rightarrow> f y ys)"
  by (cases xs) simp_all

lemma calls_in_case_sum [calls_intros]:
  "(\<And>y. x = Inl y \<Longrightarrow> calls_in C (f y)) \<Longrightarrow> (\<And>y. x = Inr y \<Longrightarrow> calls_in C (g y)) \<Longrightarrow> calls_in C (case x of Inl y \<Rightarrow> f y | Inr y \<Rightarrow> g y)"
  by (cases x) simp_all

lemma calls_in_case_prod [calls_intros]:
  "(\<And>a b. x = (a, b) \<Longrightarrow> calls_in C (f a b)) \<Longrightarrow> calls_in C (case x of (a, b) \<Rightarrow> f a b)"
  by (cases x) simp_all

lemma calls_in_case_jval [calls_intros]:
  "(\<And>u. x = JStr u \<Longrightarrow> calls_in C (f u)) \<Longrightarrow> (x = JNone \<Longrightarrow> calls_in C g) \<Longrightarrow> (\<And>u. x = JOther u \<Longrightarrow> calls_in C (h u)) \<Longrightarrow> calls_in C (case x of JStr u \<Rightarrow> f u | JNone \<Rightarrow> g | JOther u \<Rightarrow> h u)"
  by (cases x) simp_all

lemma calls_in_eval_page_script:
  assumes "\<And>c. no_create c \<Longrightarrow> C c"
  shows "calls_in C (eval_page_script E)"
  unfolding eval_page_script_def
  by (auto intro!: calls_intros assms)

lemma calls_in_getters:
  assumes "\<And>c. no_create c \<Longrightarrow> C c"
  shows "calls_in C (get_interactive_rects E)" and "calls_in C (get_visual_viewport E)"
    and "calls_in C (get_focused_rect_id E)" and "calls_in C (get_page_markdown E)"
  unfolding get_interactive_rects_def get_visual_viewport_def get_focused_rect_id_def get_page_markdown_def
  by (auto intro!: calls_intros calls_in_eval_page_script assms)

lemma calls_in_log_to_console:
  assumes "\<And>c. no_create c \<Longrightarrow> C c"
  shows "calls_in C (log_to_console fname args)"
  unfolding log_to_console_def
  by (auto intro!: calls_intros assms)

lemma calls_in_set_page: "calls_in C (\<lambda>s. (Inr (), s\<lparr>page := p\<rparr>))"
  by (rule calls_inI) simp

lemma calls_in_on_new_page:
  assumes "\<And>c. no_create c \<Longrightarrow> C c"
  shows "calls_in C (on_new_page E p)"
  unfolding on_new_page_def
  by (auto intro!: calls_intros calls_in_set_page calls_in_log_to_console assms)

lemma calls_in_wait_for_element:
  assumes "\<And>c. no_create c \<Longrightarrow> C c"
  shows "calls_in C (wait_for_element E target)"
  unfolding wait_for_element_def
  by (auto intro!: calls_intros assms split: if_splits)

lemma calls_in_click_id:
  assumes "\<And>c. no_create c \<Longrightarrow> C c"
  shows "calls_in C (click_id E identifier)"
  unfolding click_id_def
  by (auto intro!: calls_intros calls_in_wait_for_element calls_in_on_new_page assms split: if_splits)

lemma calls_in_fill_id:
  assumes "\<And>c. no_create c \<Longrightarrow> C c"
  shows "calls_in C (fill_id E identifier v)"
  unfolding fill_id_def
  by (auto intro!: calls_intros calls_in_wait_for_element assms)

lemma calls_in_simple:
  assumes "\<And>c. no_create c \<Longrightarrow> C c"
  shows "calls_in C (go_back E)" and "calls_in C (visit_page E url)"
    and "calls_in C (page_down E)" and "calls_in C (page_up E)"
    and "calls_in C (scroll_id E identifier direction)"
  unfolding go_back_def visit_page_def page_down_def page_up_def scroll_id_def
  by (auto intro!: calls_intros assms)

lemma calls_in_observe:
  assumes "\<And>c. no_create c \<Longrightarrow> C c"
  shows "calls_in C (observe E message action_description)"
  unfolding observe_def
  by (auto intro!: calls_intros calls_in_getters assms)

lemma calls_in_summarize_page:
  assumes "\<And>c. no_create c \<Longrightarrow> C c"
    and "\<And>ms. C (ClientCreate \<lparr>req_messages = ms, req_tools = None\<rparr>)"
  shows "calls_in C (summarize_page E question token_limit)"
  unfolding summarize_page_def
  by (intro calls_intros calls_in_getters; auto simp add: assms intro!: calls_intros)

lemma calls_in_dispatch_no_create:
  assumes "\<And>c. no_create c \<Longrightarrow> C c"
    and "name \<noteq> ''answer_question''" and "name \<noteq> ''summarize_page''"
  shows "calls_in C (dispatch E rects name args)"
  unfolding dispatch_def using assms(2,3)
  by (intro calls_intros calls_in_simple calls_in_click_id calls_in_fill_id assms(1); simp)

lemma calls_in_dispatch:
  assumes "\<And>c. no_create c \<Longrightarrow> C c"
    and "\<And>ms. C (ClientCreate \<lparr>req_messages = ms, req_tools = None\<rparr>)"
  shows "calls_in C (dispatch E rects name args)"
  unfolding dispatch_def
  by (intro calls_intros calls_in_simple calls_in_click_id calls_in_fill_id
        calls_in_summarize_page assms; simp)

lemma calls_in_run_tool_calls:
  assumes "\<And>c. no_create c \<Longrightarrow> C c"
    and "\<And>ms. C (ClientCreate \<lparr>req_messages = ms, req_tools = None\<rparr>)"
  shows "calls_in C (run_tool_calls E rects message)"
  unfolding run_tool_calls_def
  by (intro calls_intros calls_in_dispatch calls_in_log_to_console assms)

lemma calls_in_try_tool_calls:
  assumes "\<And>c. no_create c \<Longrightarrow> C c"
    and "\<And>ms. C (ClientCreate \<lparr>req_messages = ms, req_tools = None\<rparr>)"
  shows "calls_in C (try_tool_calls E rects message)"
  unfolding try_tool_calls_def
  by (intro calls_intros calls_in_run_tool_calls assms)
     (auto intro!: calls_intros assms split: option.splits)

lemma calls_in_act_and_observe:
  assumes "\<And>c. no_create c \<Longrightarrow> C c"
    and "\<And>ms. C (ClientCreate \<lparr>req_messages = ms, req_tools = None\<rparr>)"
  shows "calls_in C (act_and_observe E rects message)"
  unfolding act_and_observe_def
  by (intro calls_intros calls_in_try_tool_calls calls_in_observe assms)

lemma calls_in_ask_model:
  assumes "\<And>c. no_create c \<Longrightarrow> C c"
    and "\<And>ms ts. C (ClientCreate \<lparr>req_messages = ms, req_tools = Some ts\<rparr>)"
  shows "calls_in C (ask_model E messages)"
  unfolding ask_model_def surfer_request_def
  by (intro calls_intros calls_in_getters assms; simp)

lemma calls_in_generate_surfer_reply: "calls_in (\<lambda>c. True) (generate_surfer_reply E messages)"
  unfolding generate_surfer_reply_def
  by (intro calls_intros calls_in_ask_model calls_in_act_and_observe; simp)

lemma calls_in_trace:
  assumes "calls_in C m"
  shows "trace (snd (m s)) = trace s @ new_calls m s"
proof -
  from assms obtain evs where "trace (snd (m s)) = trace s @ evs"
    by (rule calls_inD)
  then show ?thesis by (simp add: new_calls_def)
qed

lemma calls_in_new_calls:
  assumes "calls_in C m"
  shows "list_all (\<lambda>ev. C (fst ev)) (new_calls m s)"
proof -
  from assms obtain evs where "trace (snd (m s)) = trace s @ evs"
    and "list_all (\<lambda>ev. C (fst ev)) evs"
    by (rule calls_inD)
  then show ?thesis by (simp add: new_calls_def)
qed

lemma new_calls_bind:
  assumes "calls_in C m" and "\<And>x. calls_in C (f x)"
  shows "new_calls (bind m f) s =
           new_calls m s
           @ (case fst (m s) of Inl e \<Rightarrow> [] | Inr x \<Rightarrow> new_calls (f x) (snd (m s)))"
proof (cases "m s")
  case (Pair r s')
  from assms(1) obtain evs1 where "trace (snd (m s)) = trace s @ evs1"
    by (rule calls_inD)
  with Pair have t: "trace s' = trace s @ evs1"
    by simp
  show ?thesis
  proof (cases r)
    case (Inl e)
    with Pair t show ?thesis
      by (simp add: new_calls_def bind_apply)
  next
    case (Inr x)
    from assms(2) obtain evs2 where "trace (snd (f x s')) = trace s' @ evs2"
      by (rule calls_inD)
    with Pair Inr t show ?thesis
      by (simp add: new_calls_def bind_apply)
  qed
qed

subsection \<open>The environments\<close>

lemma quiet_env_fields:
  "debug_dir quiet_env = ''d''"
  "navigation_allow_list quiet_env = AllowList []"
  "logging_enabled quiet_env = False"
  "oai_messages quiet_env = []"
  "tool_name quiet_env = (\<lambda>t. ''t'')"
  "content_str quiet_env = (\<lambda>c. [])"
  "add_set_of_mark quiet_env = (\<lambda>screenshot rects. (screenshot, []))"
  "resize quiet_env = (\<lambda>image. image)"
  "count_token quiet_env = (\<lambda>s. int (length s))"
  "json_loads quiet_env =
     (\<lambda>s. if s = ''{}'' then Inr (ArgsDict [])
          else Inl (JSONDecodeError ''Expecting value: line 1 column 1 (char 0)''))"
  "extract_text_or_completion_object quiet_env = (\<lambda>r. [''A summary.''])"
  "fails quiet_env = (\<lambda>s c. None)"
  "interactive_rects quiet_env = (\<lambda>s. Inr Map.empty)"
  "visual_viewport quiet_env = (\<lambda>s. Inr \<lparr>pageTop = 0, height = 900, scrollHeight = 900\<rparr>)"
  "focused_element_id quiet_env = (\<lambda>s. Inr None)"
  "page_screenshot quiet_env = (\<lambda>s. Inr (replicate (length (trace s)) CHR ''*''))"
  "outer_html quiet_env = (\<lambda>s. Inr ''h'')"
  "page_title quiet_env = (\<lambda>s. Inr ''T'')"
  "page_url quiet_env = (\<lambda>s. ''u'')"
  "bounding_box quiet_env =
     (\<lambda>s target. Inr (Some \<lparr>box_x = 10, box_y = 20, box_width = 4, box_height = 6\<rparr>))"
  "popup quiet_env = (\<lambda>s. Inl TimeoutError)"
  "client_create quiet_env =
     (\<lambda>s r. Inr \<lparr>choices = [\<lparr>content = Some ''ok'', tool_calls = []\<rparr>]\<rparr>)"
  "convert_stream quiet_env = (\<lambda>s html url. Inr html)"
  by (simp_all add: quiet_env_def)

lemma tool_env_fields:
  "debug_dir (tool_env name arguments args) = ''d''"
  "navigation_allow_list (tool_env name arguments args) = AllowList []"
  "logging_enabled (tool_env name arguments args) = False"
  "oai_messages (tool_env name arguments args) = []"
  "tool_name (tool_env name arguments args) = (\<lambda>t. ''t'')"
  "content_str (tool_env name arguments args) = (\<lambda>c. [])"
  "add_set_of_mark (tool_env name arguments args) = (\<lambda>screenshot rects. (screenshot, []))"
  "resize (tool_env name arguments args) = (\<lambda>image. image)"
  "count_token (tool_env name arguments args) = (\<lambda>s. int (length s))"
  "json_loads (tool_env name arguments args) =
     (\<lambda>s. if s = arguments then Inr args else json_loads quiet_env s)"
  "extract_text_or_completion_object (tool_env name arguments args) = (\<lambda>r. [''A summary.''])"
  "fails (tool_env name arguments args) = (\<lambda>s c. None)"
  "interactive_rects (tool_env name arguments args) = (\<lambda>s. Inr Map.empty)"
  "visual_viewport (tool_env name arguments args) =
     (\<lambda>s. Inr \<lparr>pageTop = 0, height = 900, scrollHeight = 900\<rparr>)"
  "focused_element_id (tool_env name arguments args) = (\<lambda>s. Inr None)"
  "page_screenshot (tool_env name arguments args) = (\<lambda>s. Inr (replicate (length (trace s)) CHR ''*''))"
  "outer_html (tool_env name arguments args) = (\<lambda>s. Inr ''h'')"
  "page_title (tool_env name arguments args) = (\<lambda>s. Inr ''T'')"
  "page_url (tool_env name arguments args) = (\<lambda>s. ''u'')"
  "bounding_box (tool_env name arguments args) =
     (\<lambda>s target. Inr (Some \<lparr>box_x = 10, box_y = 20, box_width = 4, box_height = 6\<rparr>))"
  "popup (tool_env name arguments args) = (\<lambda>s. Inl TimeoutError)"
  "client_create (tool_env name arguments args) =
     (\<lambda>s r. Inr \<lparr>choices =
        [\<lparr>content = Some ''ok'',
          tool_calls = [\<lparr>function_name = name, function_arguments = arguments\<rparr>]\<rparr>]\<rparr>)"
  "convert_stream (tool_env name arguments args) = (\<lambda>s html url. Inr html)"
  by (simp_all add: tool_env_def quiet_env_def)

lemma start_fields: "trace start = []" "page start = 0"
  by (simp_all add: start_def)

subsection \<open>The branch on the name of the tool\<close>

lemma dispatch_unknown:
  "name \<notin> set tool_names \<Longrightarrow>
   dispatch E rects name args s =
     (Inl (ValueError (''Unknown tool '' @ quoted name)),
      record_call (LogEvent ''Unknown tool'') None s)"
  by (simp add: dispatch_def tool_names_def run_simps)

lemma dispatch_visit_url:
  "args_get args ''url'' = Inr (JStr url) \<Longrightarrow>
   \<exists>target. map fst (new_calls (dispatch E rects ''visit_url'' args) s) = [Goto target]"
  by (auto simp add: dispatch_def visit_page_def run_simps new_calls_def split: option.splits)

lemma dispatch_history_back:
  "new_calls (dispatch E rects ''history_back'' args) s = [(GoBack, fails E s GoBack)]"
  by (auto simp add: dispatch_def go_back_def run_simps new_calls_def split: option.splits)

lemma dispatch_web_search:
  "args_get args ''query'' = Inr (JStr q) \<Longrightarrow>
   map fst (new_calls (dispatch E rects ''web_search'' args) s) =
     [Goto (''https://www.bing.com/search?q='' @ quote_plus q @ ''&FORM=QBLH'')]"
  by (auto simp add: dispatch_def visit_page_def bing_search_url_def run_simps new_calls_def
        split: option.splits)

lemma dispatch_page_up:
  "map fst (new_calls (dispatch E rects ''page_up'' args) s) =
     [Evaluate ''window.scrollBy(0, -850);'']"
  by (auto simp add: dispatch_def page_up_def VIEWPORT_HEIGHT_def str_int_def str_nat.simps
        run_simps new_calls_def split: option.splits)

lemma dispatch_page_down:
  "map fst (new_calls (dispatch E rects ''page_down'' args) s) =
     [Evaluate ''window.scrollBy(0, 850);'']"
  by (auto simp add: dispatch_def page_down_def VIEWPORT_HEIGHT_def str_int_def str_nat.simps
        run_simps new_calls_def split: option.splits)

lemma dispatch_scroll_element_up:
  "args_get args ''target_id'' = Inr t \<Longrightarrow>
   map fst (new_calls (dispatch E rects ''scroll_element_up'' args) s) =
     [Evaluate (scroll_script (py_str t) ''up'')]"
  by (auto simp add: dispatch_def scroll_id_def run_simps new_calls_def split: option.splits)

lemma dispatch_scroll_element_down:
  "args_get args ''target_id'' = Inr t \<Longrightarrow>
   map fst (new_calls (dispatch E rects ''scroll_element_down'' args) s) =
     [Evaluate (scroll_script (py_str t) ''down'')]"
  by (auto simp add: dispatch_def scroll_id_def run_simps new_calls_def split: option.splits)

lemma dispatch_summarize_page:
  "dispatch E rects ''summarize_page'' args = summarize_page E None 100000"
  by (simp add: dispatch_def)

lemma dispatch_answer_question:
  "args_get args ''question'' = Inr q \<Longrightarrow>
   dispatch E rects ''answer_question'' args s = summarize_page E (Some (py_str q)) 100000 s"
  by (simp add: dispatch_def run_simps)

lemma dispatch_click:
  assumes "args_get args ''target_id'' = Inr t"
  shows "dispatch E rects ''click'' args s =
     (case click_id E (py_str t) s of
        (Inl e, s') \<Rightarrow> (Inl e, s')
      | (Inr u, s') \<Rightarrow>
          (Inr (described (target_name (py_str t) rects)
                  (\<lambda>n. ''I clicked '' @ quoted n @ ''.'') ''I clicked the control.''), s'))"
  using assms by (simp add: dispatch_def run_simps split: prod.splits sum.splits)

lemma dispatch_input_text:
  assumes "args_get args ''input_field_id'' = Inr t" and "args_get args ''text_value'' = Inr v"
  shows "dispatch E rects ''input_text'' args s =
     (case fill_id E (py_str t) (py_str v) s of
        (Inl e, s') \<Rightarrow> (Inl e, s')
      | (Inr u, s') \<Rightarrow>
          (Inr (described (target_name (py_str t) rects)
                  (\<lambda>n. ''I typed '' @ quoted (py_str v) @ '' into '' @ quoted n @ ''.'')
                  (''I input '' @ quoted (py_str v) @ ''.'')), s'))"
  using assms by (simp add: dispatch_def run_simps split: prod.splits sum.splits)

lemma click_id_found:
  assumes w: "fails E s (WaitFor (element_selector i) 100) = None"
    and b: "bounding_box E (record_call (WaitFor (element_selector i) 100) None s)
              (element_selector i) = Inr (Some b)"
  shows "\<exists>r rest. new_calls (click_id E i) s =
          [(WaitFor (element_selector i) 100, None), (BoundingBox (element_selector i), None),
           (MouseClick (box_x b + box_width b / 2) (box_y b + box_height b / 2), r)] @ rest"
proof -
  let ?sel = "element_selector i"
  let ?s1 = "record_call (WaitFor ?sel 100) None s"
  let ?s2 = "record_call (BoundingBox ?sel) None ?s1"
  let ?click = "MouseClick (box_x b + box_width b / 2) (box_y b + box_height b / 2)"
  let ?h = "\<lambda>e. if is_TimeoutError e then Some (return ()) else None"
  let ?K = "\<lambda>_::unit. bind (ext (ExpectPopup 1000) (popup E)) (\<lambda>p. on_new_page E p)"
  have 1: "wait_for_element E ?sel s = (Inr (), ?s1)"
    using w by (simp add: wait_for_element_def run_simps)
  have 2: "ext (BoundingBox ?sel) (\<lambda>s. bounding_box E s ?sel) ?s1 = (Inr (Some b), ?s2)"
    using b by (simp add: run_simps)
  have run: "click_id E i s = try_except (bind (call_unit E ?click) ?K) ?h ?s2"
    by (simp add: click_id_def bind_apply 1 2)
  have "\<exists>r evs. trace (snd (click_id E i s)) = trace ?s2 @ (?click, r) # evs"
  proof (cases "fails E ?s2 ?click")
    case (Some e)
    then have "call_unit E ?click ?s2 = (Inl e, record_call ?click (Some e) ?s2)"
      by (simp add: run_simps)
    then have "trace (snd (click_id E i s)) = trace ?s2 @ [(?click, Some e)]"
      by (simp add: run try_except_apply bind_apply return_apply trace_record_call)
    then show ?thesis by blast
  next
    case None
    then have c: "call_unit E ?click ?s2 = (Inr (), record_call ?click None ?s2)"
      by (simp add: run_simps)
    have "calls_in (\<lambda>_. True) (try_except (?K ()) ?h)"
      by (auto intro!: calls_intros calls_in_on_new_page split: if_splits)
    from calls_in_trace [OF this, of "record_call ?click None ?s2"]
    show ?thesis
      by (simp add: run try_except_apply bind_apply c trace_record_call)
  qed
  then show ?thesis
    by (auto simp add: new_calls_def run_simps)
qed

lemma fill_id_found:
  assumes "fails E s (WaitFor (element_selector i) 100) = None"
    and "fails E (record_call (WaitFor (element_selector i) 100) None s)
           (Focus (element_selector i)) = None"
    and "fails E (record_call (Focus (element_selector i)) None
                   (record_call (WaitFor (element_selector i) 100) None s))
           (Fill (element_selector i) v) = None"
  shows "map fst (new_calls (fill_id E i v) s) =
      [WaitFor (element_selector i) 100, Focus (element_selector i),
       Fill (element_selector i) v, KeyboardPress ''Enter'']"
  using assms
  by (simp add: fill_id_def wait_for_element_def run_simps new_calls_def split: option.splits)

subsection \<open>The position of the viewport\<close>

lemma percent_nonneg:
  assumes "0 \<le> a" and "0 < b"
  shows "percent a b = Inr (a * 100 div b)"
proof (cases "a = 0")
  case True
  with assms show ?thesis by (simp add: percent_def)
next
  case False
  with assms have "0 < a * 100" by simp
  with assms show ?thesis by (simp add: percent_def)
qed



subsection \<open>The claims about the tool calls\<close>

text \<open>
  C8. For every string passed as the url of \<^verbatim>\<open>visit_url\<close>, the tool makes one
  call into the browser, a navigation: to the url itself when it starts with
  \<^verbatim>\<open>https://\<close>, \<^verbatim>\<open>http://\<close>, \<^verbatim>\<open>file://\<close> or
  \<^verbatim>\<open>about:\<close>; otherwise, when it holds a space, to the Bing search for its
  \<^verbatim>\<open>quote_plus\<close> encoding; otherwise to the url with \<^verbatim>\<open>https://\<close>
  in front.
\<close>

theorem visit_url_navigation:
  assumes "args_get args ''url'' = Inr (JStr url)"
  shows "map fst (new_calls (dispatch E rects ''visit_url'' args) s) =
           [Goto (if startswith url ''https://'' \<or> startswith url ''http://''
                     \<or> startswith url ''file://'' \<or> startswith url ''about:''
                  then url
                  else if CHR 0x20 \<in> set url
                    then ''https://www.bing.com/search?q='' @ quote_plus url @ ''&FORM=QBLH''
                  else ''https://'' @ url)]"
  using assms
  by (auto simp add: dispatch_def visit_page_def bing_search_url_def run_simps new_calls_def
        split: option.splits)

theorem visit_url_navigation_witness:
  "args_get (ArgsDict [(''url'', JStr ''two words'')]) ''url'' = Inr (JStr ''two words'')
   \<and> map fst (new_calls (dispatch quiet_env Map.empty ''visit_url''
                           (ArgsDict [(''url'', JStr ''two words'')])) start)
       = [Goto ''https://www.bing.com/search?q=two+words&FORM=QBLH'']"
  using visit_url_navigation [of "ArgsDict [(''url'', JStr ''two words'')]" "''two words''"
          quiet_env Map.empty start]
  by (simp add: startswith_def quote_plus_def quote_byte_def always_safe_def)

lemma observe_tool_calls:
  "observe E (message\<lparr>tool_calls := tcs\<rparr>) ad = observe E message ad"
  by (simp add: observe_def)






subsection \<open>The summary of a page\<close>

lemma fill_buffer_prefix:
  "\<exists>k\<le>length lines.
     fill_buffer ct L buf lines = buf @ concat (take k lines)
     \<and> (\<forall>j. 1 \<le> j \<and> j \<le> k \<longrightarrow> ct (buf @ concat (take j lines)) + 1024 \<le> L)
     \<and> (k < length lines \<longrightarrow> ct (buf @ concat (take (Suc k) lines)) + 1024 > L)"
proof (induction lines arbitrary: buf)
  case Nil
  show ?case by simp
next
  case (Cons line lines)
  show ?case
  proof (cases "ct (buf @ line) + 1024 > L")
    case True
    then show ?thesis
      by (intro exI [of _ 0]) simp
  next
    case False
    from Cons.IH [of "buf @ line"] obtain k where k: "k \<le> length lines"
      and eq: "fill_buffer ct L (buf @ line) lines = (buf @ line) @ concat (take k lines)"
      and le: "\<And>j. 1 \<le> j \<Longrightarrow> j \<le> k \<Longrightarrow> ct ((buf @ line) @ concat (take j lines)) + 1024 \<le> L"
      and gt: "k < length lines \<Longrightarrow> ct ((buf @ line) @ concat (take (Suc k) lines)) + 1024 > L"
      by blast
    have "ct (buf @ concat (take j (line # lines))) + 1024 \<le> L" if "1 \<le> j" and "j \<le> Suc k" for j
    proof (cases j)
      case 0
      with that show ?thesis by simp
    next
      case (Suc j')
      show ?thesis
      proof (cases "j' = 0")
        case True
        with Suc False show ?thesis by simp
      next
        case F: False
        with le [of j'] that Suc show ?thesis by simp
      qed
    qed
    with False k eq gt show ?thesis
      by (intro exI [of _ "Suc k"]) simp
  qed
qed

lemma fill_buffer_headroom:
  "fill_buffer ct L [] lines \<noteq> [] \<Longrightarrow> ct (fill_buffer ct L [] lines) + 1024 \<le> L"
proof -
  assume ne: "fill_buffer ct L [] lines \<noteq> []"
  from fill_buffer_prefix [of lines ct L "[]"] obtain k where
    eq: "fill_buffer ct L [] lines = concat (take k lines)"
    and le: "\<And>j. 1 \<le> j \<Longrightarrow> j \<le> k \<Longrightarrow> ct (concat (take j lines)) + 1024 \<le> L"
    by auto
  have "k \<noteq> 0"
  proof
    assume "k = 0"
    with eq ne show False by simp
  qed
  with le [of k] eq show ?thesis by simp
qed

lemma concat_re_split_newlines: "concat (re_split_newlines s) = s"
proof (induction s rule: re_split_newlines.induct)
  case (1 s)
  show ?case
  proof (cases "dropWhile (\<lambda>c. \<not> is_newline c) s = []")
    case True
    then have "takeWhile (\<lambda>c. \<not> is_newline c) s = s"
      by (metis append_Nil2 takeWhile_dropWhile_id)
    with True show ?thesis
      by (subst re_split_newlines.simps) simp
  next
    case False
    with 1 show ?thesis
      by (subst re_split_newlines.simps) (simp add: takeWhile_dropWhile_id flip: append_assoc)
  qed
qed

lemma summarize_page_empty:
  assumes "get_page_markdown E s = (Inr md, s1)"
    and "strip (fill_buffer (count_token E) L [] (re_split_newlines md)) = []"
  shows "summarize_page E q L s = (Inr ''Nothing to summarize.'', s1)"
  using assms by (simp add: summarize_page_def bind_apply return_apply)

lemma list_all_new_calls_bind:
  assumes "calls_in C m" and "m s = (Inr x, s1)" and "calls_in D (f x)"
    and "\<And>c. C c \<Longrightarrow> P c" and "\<And>c. D c \<Longrightarrow> P c"
  shows "list_all (\<lambda>ev. P (fst ev)) (new_calls (bind m f) s)"
proof -
  from assms(1) obtain evs1 where 1: "trace (snd (m s)) = trace s @ evs1"
    and c1: "list_all (\<lambda>ev. C (fst ev)) evs1"
    by (rule calls_inD)
  from assms(3) obtain evs2 where 2: "trace (snd (f x s1)) = trace s1 @ evs2"
    and c2: "list_all (\<lambda>ev. D (fst ev)) evs2"
    by (rule calls_inD)
  from 1 2 assms(2) have "new_calls (bind m f) s = evs1 @ evs2"
    by (simp add: new_calls_def bind_apply)
  with c1 c2 assms(4,5) show ?thesis
    by (auto simp add: list_all_iff)
qed

lemma summarize_page_request:
  assumes "get_page_markdown E s = (Inr md, s1)"
  shows "list_all (\<lambda>ev. \<forall>req. fst ev = ClientCreate req \<longrightarrow>
            (\<exists>title image. req = \<lparr>req_messages = [system_message,
                 make_mm_message (summary_prompt title q
                    (strip (fill_buffer (count_token E) L [] (re_split_newlines md)))) image],
               req_tools = None\<rparr>))
          (new_calls (summarize_page E q L) s)"
  unfolding summarize_page_def
  apply (rule list_all_new_calls_bind [where C = no_create and D = "\<lambda>c. \<forall>req. c = ClientCreate req \<longrightarrow>
            (\<exists>title image. req = \<lparr>req_messages = [system_message,
                 make_mm_message (summary_prompt title q
                    (strip (fill_buffer (count_token E) L [] (re_split_newlines md)))) image],
               req_tools = None\<rparr>)" and m = "get_page_markdown E" and x = md and ?s1.0 = s1])
      apply (rule calls_in_getters, simp)
     apply (rule assms)
    apply (intro calls_intros; auto intro!: calls_intros)
  apply auto
  done

lemma summarize_page_empty_calls:
  assumes "get_page_markdown E s = (Inr md, s1)"
    and "strip (fill_buffer (count_token E) L [] (re_split_newlines md)) = []"
  shows "list_all (\<lambda>ev. no_create (fst ev)) (new_calls (summarize_page E q L) s)"
proof -
  have "calls_in no_create (get_page_markdown E)"
    by (rule calls_in_getters) simp
  from calls_in_new_calls [OF this, of s] assms(1) summarize_page_empty [OF assms, of q]
  show ?thesis
    by (simp add: new_calls_def)
qed




subsection \<open>The tools offered to the model\<close>

lemma available_tools_set:
  "set (available_tools E vp sc) =
     {TOOL_VISIT_URL, TOOL_HISTORY_BACK, TOOL_CLICK, TOOL_TYPE, TOOL_SUMMARIZE_PAGE,
      TOOL_READ_PAGE_AND_ANSWER}
     \<union> (if allowed (navigation_allow_list E) ''https://www.bing.com/''
        then {TOOL_WEB_SEARCH} else {})
     \<union> (if pageTop vp > 5 then {TOOL_PAGE_UP} else {})
     \<union> (if pageTop vp + height vp + 5 < scrollHeight vp then {TOOL_PAGE_DOWN} else {})
     \<union> (if sc then {TOOL_SCROLL_ELEMENT_UP, TOOL_SCROLL_ELEMENT_DOWN} else {})"
  by (auto simp add: available_tools_def)

lemma label_loop_scrollable:
  "snd (label_loop rects (labels, b) visible) =
     (b \<or> list_ex (\<lambda>r. case rects r of None \<Rightarrow> False | Some rc \<Rightarrow> v_scrollable rc) visible)"
  by (induction visible arbitrary: labels b) (auto split: option.splits)

lemma req_tools_surfer_request:
  "req_tools (surfer_request E messages rects viewport som visible focused url) =
     Some (available_tools E viewport (snd (label_loop rects ([], False) visible)))"
  by (simp add: surfer_request_def)

lemma list_all_new_calls_step:
  assumes "calls_in C m" and "m s = (Inr x, s1)" and "\<And>c. C c \<Longrightarrow> P c"
    and "calls_in (\<lambda>c. True) (f x)" and "list_all (\<lambda>ev. P (fst ev)) (new_calls (f x) s1)"
  shows "list_all (\<lambda>ev. P (fst ev)) (new_calls (bind m f) s)"
proof -
  from assms(1) obtain evs1 where 1: "trace (snd (m s)) = trace s @ evs1"
    and c1: "list_all (\<lambda>ev. C (fst ev)) evs1"
    by (rule calls_inD)
  from assms(4) obtain evs2 where 2: "trace (snd (f x s1)) = trace s1 @ evs2"
    by (rule calls_inD)
  from 1 2 assms(2) have "new_calls (bind m f) s = evs1 @ evs2" and "new_calls (f x) s1 = evs2"
    by (simp_all add: new_calls_def bind_apply)
  with c1 assms(3,5) show ?thesis
    by (auto simp add: list_all_iff)
qed

lemma ask_model_request:
  assumes r: "get_interactive_rects E s = (Inr rects, s1)"
    and v: "get_visual_viewport E s1 = (Inr vp, s2)"
    and p: "page_screenshot E s2 = Inr shot"
  shows "list_all (\<lambda>ev. \<forall>req. fst ev = ClientCreate req \<longrightarrow>
            req_tools req = Some (available_tools E vp
              (snd (label_loop rects ([], False) (snd (add_set_of_mark E shot rects))))))
          (new_calls (ask_model E msgs) s)"
proof -
  have p': "ext Screenshot (page_screenshot E) s2 = (Inr shot, record_call Screenshot None s2)"
    using p by (simp add: ext_apply)
  show ?thesis
    unfolding ask_model_def
    apply (rule list_all_new_calls_step [where C = no_create and m = "get_interactive_rects E", OF _ r])
       apply (rule calls_in_getters, simp)
      apply clarsimp
     apply (intro calls_intros calls_in_getters; simp)
    apply (rule list_all_new_calls_step [where C = no_create and m = "get_visual_viewport E", OF _ v])
       apply (rule calls_in_getters, simp)
      apply clarsimp
     apply (intro calls_intros calls_in_getters; simp)
    apply (rule list_all_new_calls_step [where C = no_create and m = "ext Screenshot (page_screenshot E)", OF _ p'])
       apply (rule calls_in_ext, simp)
      apply clarsimp
     apply (intro calls_intros calls_in_getters; simp)
    apply (rule calls_in_new_calls [where C = "\<lambda>c. \<forall>req. c = ClientCreate req \<longrightarrow>
            req_tools req = Some (available_tools E vp
              (snd (label_loop rects ([], False) (snd (add_set_of_mark E shot rects)))))"])
    apply (intro calls_intros calls_in_getters; clarsimp simp add: req_tools_surfer_request)
    done
qed

lemma turn_requests:
  assumes r: "get_interactive_rects E s = (Inr rects, s1)"
    and v: "get_visual_viewport E s1 = (Inr vp, s2)"
    and p: "page_screenshot E s2 = Inr shot"
  shows "list_all (\<lambda>ev. \<forall>req. fst ev = ClientCreate req \<longrightarrow>
            req_tools req = None \<or>
            req_tools req = Some (available_tools E vp
              (snd (label_loop rects ([], False) (snd (add_set_of_mark E shot rects))))))
          (new_calls (generate_surfer_reply E msgs) s)"
proof -
  let ?P = "\<lambda>c. \<forall>req. c = ClientCreate req \<longrightarrow>
            req_tools req = None \<or>
            req_tools req = Some (available_tools E vp
              (snd (label_loop rects ([], False) (snd (add_set_of_mark E shot rects)))))"
  have a: "calls_in (\<lambda>c. True) (ask_model E msgs)"
    by (rule calls_in_ask_model) simp_all
  have b: "calls_in (\<lambda>c. \<forall>req. c = ClientCreate req \<longrightarrow> req_tools req = None)
             (case x of (rects, message) \<Rightarrow> act_and_observe E rects message)" for x
    by (cases x) (auto intro!: calls_in_act_and_observe)
  have b': "calls_in (\<lambda>c. True) (case x of (rects, message) \<Rightarrow> act_and_observe E rects message)"
    for x
    by (cases x) (auto intro!: calls_in_act_and_observe)
  have 1: "list_all (\<lambda>ev. ?P (fst ev)) (new_calls (ask_model E msgs) s)"
    using ask_model_request [OF r v p, of msgs] by (simp add: list_all_iff)
  have 2: "list_all (\<lambda>ev. ?P (fst ev))
             (new_calls (case x of (rects, message) \<Rightarrow> act_and_observe E rects message) s')"
    for x s'
    using calls_in_new_calls [OF b, of x s'] by (simp add: list_all_iff)
  show ?thesis
    unfolding generate_surfer_reply_def
    using 1 2
    by (simp add: new_calls_bind [OF a b'] split: sum.splits)
qed



text \<open>The definitions a turn unfolds to when it is run in an environment.\<close>

lemmas turn_defs =
  generate_surfer_reply_def ask_model_def act_and_observe_def try_tool_calls_def
  run_tool_calls_def observe_def get_interactive_rects_def get_visual_viewport_def
  get_focused_rect_id_def eval_page_script_def describe_viewport_def percent_def

lemma scrolled_env_fields:
  "debug_dir scrolled_env = ''d''"
  "navigation_allow_list scrolled_env = AllowFn (\<lambda>url. True)"
  "logging_enabled scrolled_env = False"
  "add_set_of_mark scrolled_env = (\<lambda>screenshot rects. (screenshot, []))"
  "fails scrolled_env = (\<lambda>s c. None)"
  "interactive_rects scrolled_env = (\<lambda>s. Inr Map.empty)"
  "visual_viewport scrolled_env =
     (\<lambda>s. Inr \<lparr>pageTop = 1000, height = 900, scrollHeight = 3000\<rparr>)"
  "focused_element_id scrolled_env = (\<lambda>s. Inr None)"
  "page_screenshot scrolled_env = (\<lambda>s. Inr (replicate (length (trace s)) CHR ''*''))"
  "page_title scrolled_env = (\<lambda>s. Inr ''T'')"
  "page_url scrolled_env = (\<lambda>s. ''u'')"
  "client_create scrolled_env =
     (\<lambda>s r. Inr \<lparr>choices = [\<lparr>content = Some ''ok'', tool_calls = []\<rparr>]\<rparr>)"
  by (simp_all add: scrolled_env_def quiet_env_def)


subsection \<open>The calls of the model in a turn\<close>

lemma creates_append: "creates (xs @ ys) = creates xs + creates ys"
  by (simp add: creates_def)

lemma creates_Nil: "creates [] = 0"
  by (simp add: creates_def)

lemma calls_in_weaken:
  assumes "calls_in C m" and "\<And>c. C c \<Longrightarrow> D c"
  shows "calls_in D m"
proof (rule calls_inI)
  fix s
  from assms(1) obtain evs where "trace (snd (m s)) = trace s @ evs"
    and "list_all (\<lambda>ev. C (fst ev)) evs"
    by (rule calls_inD)
  with assms(2) show "\<exists>evs. trace (snd (m s)) = trace s @ evs \<and> list_all (\<lambda>ev. D (fst ev)) evs"
    by (auto simp add: list_all_iff)
qed

lemma no_create_creates:
  assumes "calls_in no_create m"
  shows "creates (new_calls m s) = 0"
  using calls_in_new_calls [OF assms, of s]
  by (simp add: creates_def list_all_iff)

lemma creates_within_no_create:
  assumes "calls_in no_create m"
  shows "creates_within 0 0 m"
  using calls_in_weaken [OF assms, of "\<lambda>c. True"] no_create_creates [OF assms]
  by (simp add: creates_within_def)

lemma creates_within_weaken:
  assumes "creates_within lo hi m" and "lo' \<le> lo" and "hi \<le> hi'"
  shows "creates_within lo' hi' m"
proof -
  have "creates (new_calls m s) \<le> hi'" for s
    using assms(1,3) by (auto simp add: creates_within_def intro: order_trans)
  moreover have "lo' \<le> creates (new_calls m s)" if "fst (m s) = Inr x" for s x
    using assms(1,2) that by (auto simp add: creates_within_def intro: order_trans)
  ultimately show ?thesis
    using assms(1) by (simp add: creates_within_def)
qed

lemma creates_within_create: "creates_within (Suc 0) (Suc 0) (ext (ClientCreate req) f)"
  by (auto simp add: creates_within_def new_calls_def ext_apply trace_record_call creates_def
        intro!: calls_in_ext split: sum.splits)

lemma creates_within_bind:
  assumes "creates_within l1 h1 m" and "\<And>x. creates_within l2 h2 (f x)"
  shows "creates_within (l1 + l2) (h1 + h2) (bind m f)"
proof -
  have a: "calls_in (\<lambda>c. True) m" and b: "calls_in (\<lambda>c. True) (f x)" for x
    using assms by (simp_all add: creates_within_def)
  have "creates (new_calls (bind m f) s) \<le> h1 + h2
        \<and> (\<forall>y. fst (bind m f s) = Inr y \<longrightarrow> l1 + l2 \<le> creates (new_calls (bind m f) s))" for s
  proof (cases "m s")
    case (Pair r s')
    show ?thesis
    proof (cases r)
      case (Inl e)
      with Pair assms(1) show ?thesis
        by (auto simp add: new_calls_bind [OF a b] creates_within_def bind_apply
              dest: spec [of _ s])
    next
      case (Inr x)
      from assms(1) have 1: "creates (new_calls m s) \<le> h1" "l1 \<le> creates (new_calls m s)"
        using Pair Inr by (auto simp add: creates_within_def dest: spec [of _ s])
      from assms(2) [of x] have 2: "creates (new_calls (f x) s') \<le> h2"
        "\<And>y. fst (f x s') = Inr y \<Longrightarrow> l2 \<le> creates (new_calls (f x) s')"
        by (auto simp add: creates_within_def dest: spec [of _ s'])
      from 1 2 Pair Inr show ?thesis
        by (auto simp add: new_calls_bind [OF a b] creates_append bind_apply intro: add_mono)
    qed
  qed
  with calls_in_bind [OF a b] show ?thesis
    by (simp add: creates_within_def)
qed

lemma creates_within_bind_nc:
  assumes "calls_in no_create m" and "\<And>x. creates_within lo hi (f x)"
  shows "creates_within lo hi (bind m f)"
  using creates_within_bind [OF creates_within_no_create [OF assms(1)] assms(2)] by simp

lemma creates_within_bind_cn:
  assumes "creates_within lo hi m" and "\<And>x. calls_in no_create (f x)"
  shows "creates_within lo hi (bind m f)"
  using creates_within_bind [OF assms(1) creates_within_no_create [OF assms(2)]] by simp

lemma new_calls_try_except:
  assumes "calls_in C m" and "\<And>e k. h e = Some k \<Longrightarrow> calls_in C k"
  shows "new_calls (try_except m h) s =
           new_calls m s
           @ (case fst (m s) of
                Inr x \<Rightarrow> []
              | Inl e \<Rightarrow> (case h e of None \<Rightarrow> [] | Some k \<Rightarrow> new_calls k (snd (m s))))"
proof (cases "m s")
  case (Pair r s')
  from assms(1) obtain evs1 where "trace (snd (m s)) = trace s @ evs1"
    by (rule calls_inD)
  with Pair have t: "trace s' = trace s @ evs1"
    by simp
  show ?thesis
  proof (cases r)
    case (Inr x)
    with Pair t show ?thesis
      by (simp add: new_calls_def try_except_apply)
  next
    case (Inl e)
    show ?thesis
    proof (cases "h e")
      case None
      with Pair Inl t show ?thesis
        by (simp add: new_calls_def try_except_apply)
    next
      case (Some k)
      from assms(2) [OF Some] obtain evs2 where "trace (snd (k s')) = trace s' @ evs2"
        by (rule calls_inD)
      with Pair Inl Some t show ?thesis
        by (simp add: new_calls_def try_except_apply)
    qed
  qed
qed

lemma creates_within_try_except:
  assumes "creates_within lo hi m" and "\<And>e k. h e = Some k \<Longrightarrow> calls_in no_create k"
  shows "creates_within 0 hi (try_except m h)"
proof -
  have a: "calls_in (\<lambda>c. True) m"
    using assms(1) by (simp add: creates_within_def)
  have b: "calls_in (\<lambda>c. True) k" if "h e = Some k" for e k
    using calls_in_weaken [OF assms(2) [OF that], of "\<lambda>c. True"] by simp
  have "creates (new_calls (try_except m h) s) \<le> hi" for s
    using assms(1) no_create_creates [OF assms(2)]
    by (auto simp add: new_calls_try_except [OF a b] creates_append creates_Nil creates_within_def
          split: sum.splits option.splits)
  with calls_in_try_except [OF a b] show ?thesis
    by (simp add: creates_within_def)
qed

lemma creates_within_ask_model: "creates_within (Suc 0) (Suc 0) (ask_model E msgs)"
  unfolding ask_model_def
  by (intro creates_within_bind_nc calls_in_getters calls_intros
        creates_within_bind_cn [OF creates_within_create]; simp)

lemma creates_within_if:
  "(b \<Longrightarrow> creates_within lo hi m) \<Longrightarrow> (\<not> b \<Longrightarrow> creates_within lo hi n)
   \<Longrightarrow> creates_within lo hi (if b then m else n)"
  by simp

lemma creates_within_create01: "creates_within 0 (Suc 0) (ext (ClientCreate req) f)"
  by (rule creates_within_weaken [OF creates_within_create]) simp_all

lemma creates_within_nc01:
  assumes "calls_in no_create m"
  shows "creates_within 0 (Suc 0) m"
  by (rule creates_within_weaken [OF creates_within_no_create [OF assms]]) simp_all

lemma creates_within_summarize_page: "creates_within 0 (Suc 0) (summarize_page E q L)"
  unfolding summarize_page_def
  apply (rule creates_within_bind_nc)
   apply (rule calls_in_getters, simp)
  apply (rule creates_within_if)
   apply (rule creates_within_nc01, rule calls_in_return)
  apply (rule creates_within_bind_nc, rule calls_in_get_url)
  apply (rule creates_within_bind_nc)
   apply (auto intro!: calls_intros)[1]
  apply (rule creates_within_bind_nc)
   apply (auto intro!: calls_intros)[1]
  apply (rule creates_within_bind_cn [OF creates_within_create01])
  apply (auto intro!: calls_intros)
  done

lemma creates_within_dispatch: "creates_within 0 (Suc 0) (dispatch E rects name args)"
proof -
  consider "name = ''answer_question''" | "name = ''summarize_page''"
    | "name \<noteq> ''answer_question''" "name \<noteq> ''summarize_page''"
    by blast
  then show ?thesis
  proof cases
    case 1
    have "creates_within 0 (Suc 0)
            (bind (of_result (args_get args ''question'')) (\<lambda>question.
               summarize_page E (Some (py_str question)) 100000))"
      by (rule creates_within_bind_nc [OF calls_in_of_result creates_within_summarize_page])
    with 1 show ?thesis
      by (simp add: dispatch_def)
  next
    case 2
    then show ?thesis
      by (simp add: dispatch_def creates_within_summarize_page)
  next
    case 3
    then have "calls_in no_create (dispatch E rects name args)"
      by (intro calls_in_dispatch_no_create) simp_all
    then show ?thesis
      by (rule creates_within_nc01)
  qed
qed

lemma creates_within_run_tool_calls: "creates_within 0 (Suc 0) (run_tool_calls E rects message)"
proof (cases "tool_calls message")
  case Nil
  then show ?thesis
    by (simp add: run_tool_calls_def creates_within_nc01 calls_in_return)
next
  case (Cons tc tcs)
  have "creates_within 0 (Suc 0)
          (bind (of_result (json_loads E (function_arguments tc))) (\<lambda>args.
           bind (log_to_console (function_name tc) args) (\<lambda>_.
           dispatch E rects (function_name tc) args)))"
    by (intro creates_within_bind_nc calls_in_of_result calls_in_log_to_console
          creates_within_dispatch) simp
  with Cons show ?thesis
    by (simp add: run_tool_calls_def)
qed

lemma creates_within_try_tool_calls: "creates_within 0 (Suc 0) (try_tool_calls E rects message)"
  unfolding try_tool_calls_def
  apply (rule creates_within_try_except [where lo = 0])
   apply (rule creates_within_bind_cn [OF creates_within_run_tool_calls])
   apply (rule calls_in_return)
  apply (auto intro!: calls_intros split: option.splits)
  done

lemma creates_within_act_and_observe:
  "creates_within 0 (Suc 0) (act_and_observe E rects message)"
  unfolding act_and_observe_def
  apply (rule creates_within_bind_cn [OF creates_within_try_tool_calls])
  apply (intro calls_intros calls_in_observe; simp)
  done

lemma calls_in_act_no_create:
  assumes "case tool_calls message of [] \<Rightarrow> True
           | tc # _ \<Rightarrow> function_name tc \<noteq> ''answer_question''
                        \<and> function_name tc \<noteq> ''summarize_page''"
  shows "calls_in no_create (act_and_observe E rects message)"
proof -
  have "calls_in no_create (run_tool_calls E rects message)"
  proof (cases "tool_calls message")
    case Nil
    then show ?thesis
      by (simp add: run_tool_calls_def calls_in_return)
  next
    case (Cons tc tcs)
    with assms have "calls_in no_create
          (bind (of_result (json_loads E (function_arguments tc))) (\<lambda>args.
           bind (log_to_console (function_name tc) args) (\<lambda>_.
           dispatch E rects (function_name tc) args)))"
      by (intro calls_intros calls_in_log_to_console calls_in_dispatch_no_create) simp_all
    with Cons show ?thesis
      by (simp add: run_tool_calls_def)
  qed
  then have "calls_in no_create (try_tool_calls E rects message)"
    unfolding try_tool_calls_def
    by (auto intro!: calls_intros split: option.splits)
  then show ?thesis
    unfolding act_and_observe_def
    by (intro calls_intros calls_in_observe; simp)
qed

lemma creates_within_turn:
  "creates_within (Suc 0) (Suc (Suc 0)) (generate_surfer_reply E msgs)"
proof -
  have "creates_within 0 (Suc 0) (case x of (rects, message) \<Rightarrow> act_and_observe E rects message)"
    for x
    by (cases x) (simp add: creates_within_act_and_observe)
  from creates_within_bind [OF creates_within_ask_model this]
  show ?thesis
    by (simp add: generate_surfer_reply_def)
qed




subsection \<open>The exceptions of the tool calls\<close>

named_theorems raises_intros

lemma raises_onlyI:
  assumes "\<And>s e s'. m s = (Inl e, s') \<Longrightarrow> I e s' \<or> (\<exists>c tr. trace s' = tr @ [(c, Some e)])"
  shows "raises_only I m"
  using assms unfolding raises_only_def by blast

lemma raises_onlyD:
  assumes "raises_only I m" and "m s = (Inl e, s')"
  shows "I e s' \<or> (\<exists>c tr. trace s' = tr @ [(c, Some e)])"
  using assms unfolding raises_only_def by blast

lemma raises_only_return [raises_intros]: "raises_only I (return x)"
  by (rule raises_onlyI) (simp add: return_apply)

lemma raises_only_raise [raises_intros]: "(\<And>s. I e s) \<Longrightarrow> raises_only I (raise e)"
  by (rule raises_onlyI) (simp add: raise_apply)

lemma raises_only_get_url [raises_intros]: "raises_only I (get_url E)"
  by (rule raises_onlyI) (simp add: get_url_apply)

lemma raises_only_emit [raises_intros]: "raises_only I (emit c)"
  by (rule raises_onlyI) (simp add: emit_apply)

lemma raises_only_ext [raises_intros]: "raises_only I (ext c f)"
  by (rule raises_onlyI) (auto simp add: ext_apply trace_record_call split: sum.splits)

lemma raises_only_call_unit [raises_intros]: "raises_only I (call_unit E c)"
  by (simp add: call_unit_def raises_only_ext)

lemma raises_only_of_result [raises_intros]:
  "(\<And>e s. r = Inl e \<Longrightarrow> I e s) \<Longrightarrow> raises_only I (of_result r)"
  by (rule raises_onlyI) (auto simp add: of_result_apply split: sum.splits)

lemma raises_only_bind [raises_intros]:
  assumes "raises_only I m" and "\<And>x. raises_only I (f x)"
  shows "raises_only I (bind m f)"
proof (rule raises_onlyI)
  fix s e s'
  assume run: "bind m f s = (Inl e, s')"
  show "I e s' \<or> (\<exists>c tr. trace s' = tr @ [(c, Some e)])"
  proof (cases "m s")
    case (Pair r s1)
    show ?thesis
    proof (cases r)
      case (Inl e1)
      with Pair run have "m s = (Inl e, s')"
        by (simp add: bind_apply)
      with assms(1) show ?thesis
        by (rule raises_onlyD)
    next
      case (Inr x)
      with Pair run have "f x s1 = (Inl e, s')"
        by (simp add: bind_apply)
      with assms(2) show ?thesis
        by (rule raises_onlyD)
    qed
  qed
qed

lemma raises_only_try_except [raises_intros]:
  assumes "raises_only I m" and "\<And>e k. h e = Some k \<Longrightarrow> raises_only I k"
  shows "raises_only I (try_except m h)"
proof (rule raises_onlyI)
  fix s e s'
  assume run: "try_except m h s = (Inl e, s')"
  show "I e s' \<or> (\<exists>c tr. trace s' = tr @ [(c, Some e)])"
  proof (cases "m s")
    case (Pair r s1)
    show ?thesis
    proof (cases r)
      case (Inr x)
      with Pair run show ?thesis
        by (simp add: try_except_apply)
    next
      case (Inl e1)
      show ?thesis
      proof (cases "h e1")
        case None
        with Pair Inl run have "m s = (Inl e, s')"
          by (simp add: try_except_apply)
        with assms(1) show ?thesis
          by (rule raises_onlyD)
      next
        case (Some k)
        with Pair Inl run have "k s1 = (Inl e, s')"
          by (simp add: try_except_apply)
        with assms(2) [OF Some] show ?thesis
          by (rule raises_onlyD)
      qed
    qed
  qed
qed

lemma raises_only_if [raises_intros]:
  "(b \<Longrightarrow> raises_only I m) \<Longrightarrow> (\<not> b \<Longrightarrow> raises_only I n) \<Longrightarrow> raises_only I (if b then m else n)"
  by simp

lemma raises_only_case_option [raises_intros]:
  "(x = None \<Longrightarrow> raises_only I m) \<Longrightarrow> (\<And>y. x = Some y \<Longrightarrow> raises_only I (f y))
   \<Longrightarrow> raises_only I (case x of None \<Rightarrow> m | Some y \<Rightarrow> f y)"
  by (cases x) simp_all

lemma raises_only_case_list [raises_intros]:
  "(xs = [] \<Longrightarrow> raises_only I m) \<Longrightarrow> (\<And>y ys. xs = y # ys \<Longrightarrow> raises_only I (f y ys))
   \<Longrightarrow> raises_only I (case xs of [] \<Rightarrow> m | y # ys \<Rightarrow> f y ys)"
  by (cases xs) simp_all

lemma raises_only_case_jval [raises_intros]:
  "(\<And>u. x = JStr u \<Longrightarrow> raises_only I (f u)) \<Longrightarrow> (x = JNone \<Longrightarrow> raises_only I g)
   \<Longrightarrow> (\<And>u. x = JOther u \<Longrightarrow> raises_only I (h u))
   \<Longrightarrow> raises_only I (case x of JStr u \<Rightarrow> f u | JNone \<Rightarrow> g | JOther u \<Rightarrow> h u)"
  by (cases x) simp_all

lemma raises_only_weaken:
  assumes "raises_only I m" and "\<And>e s. I e s \<Longrightarrow> J e s"
  shows "raises_only J m"
  using assms unfolding raises_only_def by blast

lemma raises_only_set_page: "raises_only I (\<lambda>s. (Inr (), s\<lparr>page := p\<rparr>))"
  by (rule raises_onlyI) simp

lemma raises_only_eval_page_script: "raises_only I (eval_page_script E)"
  unfolding eval_page_script_def
  by (auto intro!: raises_intros)

lemma raises_only_getters:
  "raises_only I (get_interactive_rects E)" "raises_only I (get_visual_viewport E)"
  "raises_only I (get_focused_rect_id E)" "raises_only I (get_page_markdown E)"
  unfolding get_interactive_rects_def get_visual_viewport_def get_focused_rect_id_def
    get_page_markdown_def
  by (intro raises_intros raises_only_eval_page_script)+

lemma raises_only_log_to_console:
  assumes "\<And>s. I TypeError s"
  shows "raises_only I (log_to_console fname args)"
  unfolding log_to_console_def
  by (intro raises_intros assms)

lemma raises_only_on_new_page:
  assumes "\<And>s. I TypeError s"
  shows "raises_only I (on_new_page E p)"
  unfolding on_new_page_def
  by (intro raises_intros raises_only_set_page raises_only_log_to_console assms)

lemma raises_only_wait_for_element:
  "raises_only (\<lambda>e s'. e = ValueError ''No such element.''
                  \<and> (\<exists>tr. trace s' = tr @ [(WaitFor target 100, Some TimeoutError)]))
     (wait_for_element E target)"
  apply (rule raises_onlyI)
  apply (auto simp add: wait_for_element_def run_simps split: option.splits if_splits)
  subgoal for s e by (cases e) auto
  done

lemma raises_only_click_id:
  "raises_only (\<lambda>e s'. as_ValueError e = None
                  \<or> (e = ValueError ''No such element.''
                      \<and> (\<exists>sel tr. trace s' = tr @ [(WaitFor sel 100, Some TimeoutError)])))
     (click_id E i)"
  unfolding click_id_def
  apply (intro raises_intros raises_only_weaken [OF raises_only_wait_for_element]
      raises_only_on_new_page)
       apply (auto intro!: raises_intros split: if_splits)
  done

lemma raises_only_fill_id:
  "raises_only (\<lambda>e s'. as_ValueError e = None
                  \<or> (e = ValueError ''No such element.''
                      \<and> (\<exists>sel tr. trace s' = tr @ [(WaitFor sel 100, Some TimeoutError)])))
     (fill_id E i v)"
  unfolding fill_id_def
  apply (intro raises_intros raises_only_weaken [OF raises_only_wait_for_element])
  apply auto
  done

lemma raises_only_simple:
  "raises_only I (go_back E)" "raises_only I (visit_page E url)"
  "raises_only I (page_down E)" "raises_only I (page_up E)"
  "raises_only I (scroll_id E identifier direction)"
  unfolding go_back_def visit_page_def page_down_def page_up_def scroll_id_def
  by (intro raises_intros)+

lemma raises_only_summarize_page:
  assumes "\<And>s. I IndexError s"
  shows "raises_only I (summarize_page E q L)"
  unfolding summarize_page_def
  apply (intro raises_intros raises_only_getters assms)
  apply (auto intro!: raises_intros)
  done

lemma args_get_Inl: "args_get a k = Inl e \<Longrightarrow> e = AttributeError"
  by (cases a) simp_all

lemma raises_only_dispatch:
  "raises_only (\<lambda>e s'. as_ValueError e = None
                  \<or> (name \<in> {''click'', ''input_text''}
                      \<and> e = ValueError ''No such element.''
                      \<and> (\<exists>sel tr. trace s' = tr @ [(WaitFor sel 100, Some TimeoutError)]))
                  \<or> (name \<notin> set tool_names
                      \<and> e = ValueError (''Unknown tool '' @ quoted name)))
     (dispatch E rects name args)"
  unfolding dispatch_def
  apply (intro raises_intros raises_only_simple raises_only_summarize_page
      raises_only_weaken [OF raises_only_click_id] raises_only_weaken [OF raises_only_fill_id])
  apply (auto simp add: tool_names_def dest: args_get_Inl)
  done

lemma raises_only_run_tool_calls:
  assumes "tool_calls message = tc # rest"
  shows "raises_only (\<lambda>e s'. as_ValueError e = None
                  \<or> json_loads E (function_arguments tc) = Inl e
                  \<or> (function_name tc \<in> {''click'', ''input_text''}
                      \<and> e = ValueError ''No such element.''
                      \<and> (\<exists>sel tr. trace s' = tr @ [(WaitFor sel 100, Some TimeoutError)]))
                  \<or> (function_name tc \<notin> set tool_names
                      \<and> e = ValueError (''Unknown tool '' @ quoted (function_name tc))))
     (run_tool_calls E rects message)"
  unfolding run_tool_calls_def assms list.case
  apply (intro raises_intros raises_only_log_to_console
      raises_only_weaken [OF raises_only_dispatch])
    apply auto
  done

lemma missing_element_env_fields:
  \<open>json_loads missing_element_env ''{"target_id": 7}'' = Inr (ArgsDict [(''target_id'', JOther ''7'')])\<close>
  "logging_enabled missing_element_env = False"
  "fails missing_element_env s (WaitFor sel t) = Some TimeoutError"
  "fails missing_element_env s EvalPageScript = None"
  "debug_dir missing_element_env = ''d''"
  "add_set_of_mark missing_element_env = (\<lambda>screenshot rects. (screenshot, []))"
  "interactive_rects missing_element_env = (\<lambda>s. Inr Map.empty)"
  "visual_viewport missing_element_env =
     (\<lambda>s. Inr \<lparr>pageTop = 0, height = 900, scrollHeight = 900\<rparr>)"
  "focused_element_id missing_element_env = (\<lambda>s. Inr None)"
  "page_screenshot missing_element_env = (\<lambda>s. Inr (replicate (length (trace s)) CHR ''*''))"
  "page_url missing_element_env = (\<lambda>s. ''u'')"
  \<open>client_create missing_element_env =
     (\<lambda>s r. Inr \<lparr>choices =
        [\<lparr>content = Some ''ok'',
          tool_calls = [\<lparr>function_name = ''click'',
                          function_arguments = ''{"target_id": 7}''\<rparr>]\<rparr>]\<rparr>)\<close>
  by (simp_all add: missing_element_env_def tool_env_def quiet_env_def)

lemma empty_arguments_env_fields:
  "json_loads empty_arguments_env [] =
     Inl (JSONDecodeError ''Expecting value: line 1 column 1 (char 0)'')"
  "logging_enabled empty_arguments_env = False"
  "fails empty_arguments_env = (\<lambda>s c. None)"
  "debug_dir empty_arguments_env = ''d''"
  "add_set_of_mark empty_arguments_env = (\<lambda>screenshot rects. (screenshot, []))"
  "interactive_rects empty_arguments_env = (\<lambda>s. Inr Map.empty)"
  "visual_viewport empty_arguments_env =
     (\<lambda>s. Inr \<lparr>pageTop = 0, height = 900, scrollHeight = 900\<rparr>)"
  "focused_element_id empty_arguments_env = (\<lambda>s. Inr None)"
  "page_screenshot empty_arguments_env = (\<lambda>s. Inr (replicate (length (trace s)) CHR ''*''))"
  "page_url empty_arguments_env = (\<lambda>s. ''u'')"
  "client_create empty_arguments_env =
     (\<lambda>s r. Inr \<lparr>choices =
        [\<lparr>content = Some ''ok'',
          tool_calls = [\<lparr>function_name = ''history_back'', function_arguments = []\<rparr>]\<rparr>]\<rparr>)"
  by (simp_all add: empty_arguments_env_def quiet_env_def)

lemma value_error_caught:
  assumes "run_tool_calls E rects message s1 = (Inl e, s2)" and "as_ValueError e = Some m"
  shows "act_and_observe E rects message s1 =
           (Inr (True, ReplyStr m),
            if logging_enabled E then record_call (LogEvent ''ValueError'') None s2 else s2)"
  using assms by (simp add: act_and_observe_def try_tool_calls_def run_simps)

lemma value_error_sources:
  assumes "run_tool_calls E rects message s1 = (Inl e, s2)" and "as_ValueError e = Some m"
  shows "\<exists>tc rest. tool_calls message = tc # rest
           \<and> (json_loads E (function_arguments tc) = Inl e
               \<or> (function_name tc \<in> {''click'', ''input_text''}
                   \<and> e = ValueError ''No such element.''
                   \<and> (\<exists>sel tr. trace s2 = tr @ [(WaitFor sel 100, Some TimeoutError)]))
               \<or> (function_name tc \<notin> set tool_names
                   \<and> e = ValueError (''Unknown tool '' @ quoted (function_name tc)))
               \<or> (\<exists>c tr. trace s2 = tr @ [(c, Some e)]))"
proof (cases "tool_calls message")
  case Nil
  with assms show ?thesis
    by (simp add: run_tool_calls_def return_apply)
next
  case (Cons tc rest)
  from raises_onlyD [OF raises_only_run_tool_calls [OF Cons] assms(1)] assms(2) Cons
  show ?thesis
    by auto
qed

lemma json_error_raised:
  assumes "tool_calls message = tc # rest" and "json_loads E (function_arguments tc) = Inl e"
  shows "run_tool_calls E rects message s1 = (Inl e, s1)"
  using assms by (simp add: run_tool_calls_def run_simps)

lemma unknown_tool_raised:
  assumes "tool_calls message = tc # rest" and "json_loads E (function_arguments tc) = Inr args"
    and "args \<noteq> ArgsOther" and "function_name tc \<notin> set tool_names"
  shows "run_tool_calls E rects message s1 =
           (Inl (ValueError (''Unknown tool '' @ quoted (function_name tc))),
            record_call (LogEvent ''Unknown tool'') None
              (record_call (Print (console_line (function_name tc) args)) None s1))"
  using assms by (simp add: run_tool_calls_def log_to_console_def run_simps dispatch_unknown)

lemma click_missing_raised:
  assumes "tool_calls message = tc # rest" and "json_loads E (function_arguments tc) = Inr args"
    and "args \<noteq> ArgsOther" and "function_name tc = ''click''"
    and "args_get args ''target_id'' = Inr t"
    and "fails E (record_call (Print (console_line ''click'' args)) None s1)
           (WaitFor (element_selector (py_str t)) 100) = Some TimeoutError"
  shows "run_tool_calls E rects message s1 =
           (Inl (ValueError ''No such element.''),
            record_call (WaitFor (element_selector (py_str t)) 100) (Some TimeoutError)
              (record_call (Print (console_line ''click'' args)) None s1))"
  using assms
  by (simp add: run_tool_calls_def log_to_console_def run_simps dispatch_def click_id_def
        wait_for_element_def)

lemma input_missing_raised:
  assumes "tool_calls message = tc # rest" and "json_loads E (function_arguments tc) = Inr args"
    and "args \<noteq> ArgsOther" and "function_name tc = ''input_text''"
    and "args_get args ''input_field_id'' = Inr f" and "args_get args ''text_value'' = Inr v"
    and "fails E (record_call (Print (console_line ''input_text'' args)) None s1)
           (WaitFor (element_selector (py_str f)) 100) = Some TimeoutError"
  shows "run_tool_calls E rects message s1 =
           (Inl (ValueError ''No such element.''),
            record_call (WaitFor (element_selector (py_str f)) 100) (Some TimeoutError)
              (record_call (Print (console_line ''input_text'' args)) None s1))"
  using assms
  by (simp add: run_tool_calls_def log_to_console_def run_simps dispatch_def fill_id_def
        wait_for_element_def)




end
